theory Spec2Isabelle
  imports Main "HOL-Library.List_Lexorder"
begin

section \<open>Python values as the program sees them\<close>

text \<open>
  Both modules work on documents decoded by \<^verbatim>\<open>json.load\<close> or \<^verbatim>\<open>resp.json()\<close>
  and never check their shape, so the model keeps them untyped. A Python \<^verbatim>\<open>str\<close> is a
  sequence of Unicode code points: a list of naturals. Floating-point numbers are left out
  of the value type. A \<^verbatim>\<open>dict\<close> is an association list in insertion order; lookup takes
  the first binding of a key (a real dict binds a key once).
\<close>

type_synonym ustring = "nat list"

definition ascii :: "string \<Rightarrow> ustring" where
  "ascii s = map of_char s"

datatype json =
    JNull
  | JBool bool
  | JInt int
  | JStr ustring
  | JList "json list"
  | JObj "(ustring \<times> json) list"

text \<open>The exception classes that the modelled operations can raise.\<close>

datatype error = KeyError | AttributeError | TypeError

text \<open>Sequencing of computations that may raise: the first exception wins.\<close>

definition ebind :: "error + 'a \<Rightarrow> ('a \<Rightarrow> error + 'b) \<Rightarrow> error + 'b" where
  "ebind m f = (case m of Inl e \<Rightarrow> Inl e | Inr v \<Rightarrow> f v)"

text \<open>Truth value testing (\<^verbatim>\<open>if x\<close>, \<^verbatim>\<open>not x\<close>, \<^verbatim>\<open>x or y\<close>).\<close>

fun truthy :: "json \<Rightarrow> bool" where
  "truthy JNull = False"
| "truthy (JBool b) = b"
| "truthy (JInt i) = (i \<noteq> 0)"
| "truthy (JStr s) = (s \<noteq> [])"
| "truthy (JList xs) = (xs \<noteq> [])"
| "truthy (JObj kvs) = (kvs \<noteq> [])"

text \<open>
  \<^verbatim>\<open>obj.get(key, default)\<close>: only a dict has the method (AttributeError otherwise); a list
  or dict key is unhashable (TypeError); every key of a decoded JSON object is a string, so
  any other hashable key misses.
\<close>

fun py_get :: "json \<Rightarrow> json \<Rightarrow> json \<Rightarrow> error + json" where
  "py_get (JObj kvs) (JStr k) d = Inr (case map_of kvs k of Some v \<Rightarrow> v | None \<Rightarrow> d)"
| "py_get (JObj kvs) (JList _) d = Inl TypeError"
| "py_get (JObj kvs) (JObj _) d = Inl TypeError"
| "py_get (JObj kvs) _ d = Inr d"
| "py_get _ _ _ = Inl AttributeError"

text \<open>\<^verbatim>\<open>obj.get("key", default)\<close> with a literal key.\<close>

definition get_key :: "json \<Rightarrow> ustring \<Rightarrow> json \<Rightarrow> error + json" where
  "get_key obj k d = py_get obj (JStr k) d"

text \<open>
  \<^verbatim>\<open>obj["key"]\<close> with a literal string key: KeyError on a dict without the key,
  TypeError on every other value (a list or string wants an integer index, the rest is not
  subscriptable).
\<close>

fun py_item :: "json \<Rightarrow> ustring \<Rightarrow> error + json" where
  "py_item (JObj kvs) k = (case map_of kvs k of Some v \<Rightarrow> Inr v | None \<Rightarrow> Inl KeyError)"
| "py_item _ k = Inl TypeError"

text \<open>
  \<^verbatim>\<open>for x in obj\<close>: a list yields its elements, a dict its keys, a string its
  characters; nothing else is iterable.
\<close>

fun py_iter :: "json \<Rightarrow> error + json list" where
  "py_iter (JList xs) = Inr xs"
| "py_iter (JObj kvs) = Inr (map (\<lambda>kv. JStr (fst kv)) kvs)"
| "py_iter (JStr s) = Inr (map (\<lambda>c. JStr [c]) s)"
| "py_iter _ = Inl TypeError"

text \<open>\<^verbatim>\<open>str(n)\<close> of an integer: decimal digits, with a minus sign below zero.\<close>

fun digits :: "nat \<Rightarrow> ustring" where
  "digits n = (if n < 10 then [48 + n] else digits (n div 10) @ [48 + n mod 10])"

declare digits.simps [simp del]

definition str_int :: "int \<Rightarrow> ustring" where
  "str_int i = (if i < 0 then 45 # digits (nat (- i)) else digits (nat i))"

text \<open>
  The builtins of Python that the model does not define are its parameters:
  \<^verbatim>\<open>str.lower\<close> and \<^verbatim>\<open>str.strip\<close>, which depend on the Unicode tables; the
  \<^verbatim>\<open>repr\<close> of a list or dict (which \<^verbatim>\<open>str\<close> and an f-string print for a container);
  and what \<^verbatim>\<open>sorted\<close> does with keys that are neither all numbers nor all strings
  (\<open>sorted_rest keys xs\<close>: lists are compared element by element, keys of different kinds
  raise TypeError, and which comparisons are made depends on the sorting algorithm).
\<close>

record builtins =
  lower :: "ustring \<Rightarrow> ustring"
  strip :: "ustring \<Rightarrow> ustring"
  repr :: "json \<Rightarrow> ustring"
  sorted_rest :: "json list \<Rightarrow> json list \<Rightarrow> error + json list"

text \<open>\<^verbatim>\<open>str(v)\<close>, also what \<^verbatim>\<open>f"{v}"\<close> prints.\<close>

fun py_str :: "builtins \<Rightarrow> json \<Rightarrow> ustring" where
  "py_str bi JNull = ascii ''None''"
| "py_str bi (JBool b) = (if b then ascii ''True'' else ascii ''False'')"
| "py_str bi (JInt i) = str_int i"
| "py_str bi (JStr s) = s"
| "py_str bi v = repr bi v"


text \<open>\<^verbatim>\<open>sep.join(texts)\<close>.\<close>

fun join :: "ustring \<Rightarrow> ustring list \<Rightarrow> ustring" where
  "join sep [] = []"
| "join sep [t] = t"
| "join sep (t # ts) = t @ sep @ join sep ts"

text \<open>
  \<^verbatim>\<open>a == b\<close> on decoded values: \<^verbatim>\<open>True\<close> and \<^verbatim>\<open>False\<close> are the integers 1 and 0,
  lists are compared element by element, dicts as mappings (whatever the insertion order).
\<close>

lemma size_the_map_of:
  "k \<in> fst ` set kvs \<Longrightarrow>
   size (the (map_of kvs k)) < Suc (size_list (size_prod (\<lambda>_. 0) size) kvs)"
  by (induction kvs) (force split: if_splits)+

lemma size_elem: "x \<in> set xs \<Longrightarrow> size x < Suc (size_list size xs)"
  by (induction xs) auto

fun as_num :: "json \<Rightarrow> int option" where
  "as_num (JBool b) = Some (if b then 1 else 0)"
| "as_num (JInt i) = Some i"
| "as_num _ = None"

function py_eq :: "json \<Rightarrow> json \<Rightarrow> bool" where
  "py_eq JNull w = (w = JNull)"
| "py_eq (JBool b) w = (as_num w = Some (if b then 1 else 0))"
| "py_eq (JInt i) w = (as_num w = Some i)"
| "py_eq (JStr s) w = (w = JStr s)"
| "py_eq (JList xs) w =
     (case w of
        JList ys \<Rightarrow> length xs = length ys \<and> (\<forall>p \<in> set (zip xs ys). py_eq (fst p) (snd p))
      | _ \<Rightarrow> False)"
| "py_eq (JObj kvs) w =
     (case w of
        JObj kws \<Rightarrow>
          set (map fst kvs) = set (map fst kws) \<and>
          (\<forall>k \<in> set (map fst kvs). py_eq (the (map_of kvs k)) (the (map_of kws k)))
      | _ \<Rightarrow> False)"
  by pat_completeness auto
termination
proof (relation "measure (\<lambda>p. size (fst p))")
  show "wf (measure (\<lambda>p. size (fst p)))" by simp
next
  fix xs ys :: "json list" and w :: json and p
  assume "p \<in> set (zip xs ys)"
  then have "fst p \<in> set xs"
    using set_zip_leftD [of "fst p" "snd p" xs ys] by simp
  then show "((fst p, snd p), JList xs, w) \<in> measure (\<lambda>p. size (fst p))"
    by (simp add: size_elem)
next
  fix kvs kws :: "(ustring \<times> json) list" and w :: json and k
  assume "k \<in> set (map fst kvs)"
  then show "((the (map_of kvs k), the (map_of kws k)), JObj kvs, w)
             \<in> measure (\<lambda>p. size (fst p))"
    by (simp add: size_the_map_of)
qed

text \<open>
  The elements a loop \<^verbatim>\<open>for x in node.get(key, [])\<close> runs over. Each of them is smaller
  than the node, which is what the recursive walks over a chain terminate by.
\<close>

definition children :: "json \<Rightarrow> ustring \<Rightarrow> error + json list" where
  "children node k = ebind (get_key node k (JList [])) py_iter"

lemma ebind_cong [fundef_cong]:
  "m = m' \<Longrightarrow> (\<And>v. m' = Inr v \<Longrightarrow> f v = f' v) \<Longrightarrow> ebind m f = ebind m' f'"
  by (cases m') (simp_all add: ebind_def)

text \<open>
  A \<^verbatim>\<open>for\<close> loop whose body updates a local state and may raise, and one whose body
  may \<^verbatim>\<open>return\<close> a result (\<open>Some\<close>) or fall through to the next element (\<open>None\<close>).
\<close>

fun for_each :: "('a \<Rightarrow> 's \<Rightarrow> error + 's) \<Rightarrow> 'a list \<Rightarrow> 's \<Rightarrow> error + 's" where
  "for_each body [] s = Inr s"
| "for_each body (x # xs) s = ebind (body x s) (for_each body xs)"

fun for_return :: "('a \<Rightarrow> error + 'r option) \<Rightarrow> 'a list \<Rightarrow> error + 'r option" where
  "for_return body [] = Inr None"
| "for_return body (x # xs) =
     ebind (body x) (\<lambda>r. case r of Some y \<Rightarrow> Inr (Some y) | None \<Rightarrow> for_return body xs)"

text \<open>A list comprehension \<^verbatim>\<open>[f(x) for x in xs]\<close> whose element expression may raise.\<close>

fun map_e :: "('a \<Rightarrow> error + 'b) \<Rightarrow> 'a list \<Rightarrow> error + 'b list" where
  "map_e f [] = Inr []"
| "map_e f (x # xs) = ebind (f x) (\<lambda>y. ebind (map_e f xs) (\<lambda>ys. Inr (y # ys)))"

lemma for_each_cong [fundef_cong]:
  "xs = ys \<Longrightarrow> s = t \<Longrightarrow> (\<And>x u. x \<in> set ys \<Longrightarrow> f x u = g x u) \<Longrightarrow>
   for_each f xs s = for_each g ys t"
proof (induction ys arbitrary: xs s t)
  case Nil
  then show ?case by simp
next
  case (Cons y ys)
  have "for_each f ys u = for_each g ys u" for u
    by (rule Cons.IH) (simp_all add: Cons.prems)
  then show ?case
    using Cons.prems by (simp add: ebind_def split: sum.splits)
qed

lemma for_return_cong [fundef_cong]:
  "xs = ys \<Longrightarrow> (\<And>x. x \<in> set ys \<Longrightarrow> f x = g x) \<Longrightarrow> for_return f xs = for_return g ys"
proof (induction ys arbitrary: xs)
  case Nil
  then show ?case by simp
next
  case (Cons y ys)
  have "for_return f ys = for_return g ys"
    by (rule Cons.IH) (simp_all add: Cons.prems)
  then show ?case
    using Cons.prems by (simp add: ebind_def split: sum.splits)
qed

lemma size_map_of: "map_of kvs k = Some v \<Longrightarrow> size v < size (JObj kvs)"
  by (induction kvs) (auto split: if_splits)

lemma py_iter_size: "py_iter v = Inr xs \<Longrightarrow> x \<in> set xs \<Longrightarrow> size x \<le> size v"
  by (cases v) (auto simp: less_imp_le size_elem)

lemma children_size: "children node k = Inr xs \<Longrightarrow> x \<in> set xs \<Longrightarrow> size x < size node"
proof (cases node)
  case (JObj kvs)
  assume c: "children node k = Inr xs" and x: "x \<in> set xs"
  show ?thesis
  proof (cases "map_of kvs k")
    case None
    with c x JObj show ?thesis by (simp add: children_def get_key_def ebind_def)
  next
    case (Some v)
    with c JObj have "py_iter v = Inr xs" by (simp add: children_def get_key_def ebind_def)
    with x have "size x \<le> size v" by (rule py_iter_size [rotated])
    moreover from Some have "size v < size (JObj kvs)" by (rule size_map_of)
    ultimately show ?thesis using JObj by simp
  qed
qed (simp_all add: children_def get_key_def ebind_def)

section \<open>logic.py: the query layer\<close>

text \<open>
  The documents the memoised loaders \<^verbatim>\<open>load_item_name_map()\<close> and
  \<^verbatim>\<open>load_type_name_map()\<close> return: whatever the two JSON files hold.
\<close>

record loaded =
  item_name_map :: json
  type_name_map :: json

text \<open>The literals of the module that are not ASCII, as code points.\<close>

definition lang_ja :: ustring where \<comment> \<open>"nihongo", the Japanese locale\<close>
  "lang_ja = [0x65E5, 0x672C, 0x8A9E]"

definition key_id :: ustring where \<comment> \<open>"zukan bangou", the numeric ID\<close>
  "key_id = [0x56F3, 0x9451, 0x756A, 0x53F7]"

definition key_name_en :: ustring where \<comment> \<open>"eigo-mei", the slug name\<close>
  "key_name_en = [0x82F1, 0x8A9E, 0x540D]"

definition key_name_ja :: ustring where \<comment> \<open>"nihongo-mei", the display name\<close>
  "key_name_ja = [0x65E5, 0x672C, 0x8A9E, 0x540D]"

definition key_types :: ustring where \<comment> \<open>"taipu", the type slugs\<close>
  "key_types = [0x30BF, 0x30A4, 0x30D7]"

definition key_img :: ustring where \<comment> \<open>"gazou", the image URL\<close>
  "key_img = [0x753B, 0x50CF]"

definition key_chain :: ustring where \<comment> \<open>"shinka chein", the raw evolution chain\<close>
  "key_chain = [0x9032, 0x5316, 0x30C1, 0x30A7, 0x30FC, 0x30F3]"

definition key_forms :: ustring where \<comment> \<open>"forumu ichiran", the list of forms\<close>
  "key_forms = [0x30D5, 0x30A9, 0x30EB, 0x30E0, 0x4E00, 0x89A7]"

definition txt_unknown_ja :: ustring where \<comment> \<open>"jouken fumei": condition unknown\<close>
  "txt_unknown_ja = [0x6761, 0x4EF6, 0x4E0D, 0x660E]"

definition txt_level_ja :: ustring where \<comment> \<open>"reberu de shinka": evolves at level\<close>
  "txt_level_ja = [0x30EC, 0x30D9, 0x30EB, 0x3067, 0x9032, 0x5316]"

definition txt_use_ja :: ustring where \<comment> \<open>"wo tsukau": use (the item)\<close>
  "txt_use_ja = [0x3092, 0x4F7F, 0x3046]"

definition txt_friendship_ja :: ustring where \<comment> \<open>evolves with high friendship\<close>
  "txt_friendship_ja =
     [0x306A, 0x3064, 0x304D, 0x5EA6, 0x304C, 0x9AD8, 0x3044, 0x72B6, 0x614B, 0x3067, 0x9032, 0x5316]"

definition txt_move_ja :: ustring where \<comment> \<open>evolves when it knows (the move)\<close>
  "txt_move_ja = [0x3092, 0x899A, 0x3048, 0x3066, 0x3044, 0x308B, 0x3068, 0x9032, 0x5316]"

definition txt_time_ja :: ustring where \<comment> \<open>"ni shinka": evolves at (the time of day)\<close>
  "txt_time_ja = [0x306B, 0x9032, 0x5316]"

definition txt_special_ja :: ustring where \<comment> \<open>evolves under a special condition\<close>
  "txt_special_ja = [0x7279, 0x6B8A, 0x306A, 0x6761, 0x4EF6, 0x3067, 0x9032, 0x5316]"

definition sep_ja :: ustring where \<comment> \<open>the ideographic comma\<close>
  "sep_ja = [0x3001]"

text \<open>\<^verbatim>\<open>safe_translate(name, mapping)\<close> is \<^verbatim>\<open>mapping.get(name, name)\<close>.\<close>

definition safe_translate :: "json \<Rightarrow> json \<Rightarrow> error + json" where
  "safe_translate name mapping = py_get mapping name name"

text \<open>
  \<^verbatim>\<open>translate_types\<close>: under the Japanese locale the list comprehension translates
  each element in turn, otherwise the value is handed back as it is.
\<close>

fun translate_each :: "json \<Rightarrow> json list \<Rightarrow> error + json list" where
  "translate_each type_map [] = Inr []"
| "translate_each type_map (t # ts) =
     ebind (safe_translate t type_map) (\<lambda>t'.
     ebind (translate_each type_map ts) (\<lambda>ts'. Inr (t' # ts')))"

definition translate_types :: "json \<Rightarrow> ustring \<Rightarrow> json \<Rightarrow> error + json" where
  "translate_types types lang type_map =
     (if lang = lang_ja
      then ebind (py_iter types) (\<lambda>ts. ebind (translate_each type_map ts) (\<lambda>r. Inr (JList r)))
      else Inr types)"





subsection \<open>format\_evolution\_conditions\<close>

text \<open>The six local variables the loop body reads from one detail record.\<close>

record locals =
  trig :: json
  lvl :: json
  itm :: json
  hp :: json
  tm :: json
  mv :: json

text \<open>\<^verbatim>\<open>d.get(k, {}).get("name") if d.get(k) else None\<close>.\<close>

definition opt_name :: "json \<Rightarrow> ustring \<Rightarrow> error + json" where
  "opt_name d k =
     ebind (get_key d k JNull) (\<lambda>c.
       if truthy c then ebind (get_key d k (JObj [])) (\<lambda>obj. get_key obj (ascii ''name'') JNull)
       else Inr JNull)"

definition read_detail :: "json \<Rightarrow> error + locals" where
  "read_detail d =
     ebind (get_key d (ascii ''trigger'') (JObj [])) (\<lambda>t.
     ebind (get_key t (ascii ''name'') (JStr [])) (\<lambda>trig'.
     ebind (get_key d (ascii ''min_level'') JNull) (\<lambda>lvl'.
     ebind (opt_name d (ascii ''item'')) (\<lambda>itm'.
     ebind (get_key d (ascii ''min_happiness'') JNull) (\<lambda>hp'.
     ebind (get_key d (ascii ''time_of_day'') JNull) (\<lambda>tm'.
     ebind (opt_name d (ascii ''known_move'')) (\<lambda>mv'.
       Inr \<lparr>trig = trig', lvl = lvl', itm = itm', hp = hp', tm = tm', mv = mv'\<rparr>)))))))"

text \<open>
  The two \<^verbatim>\<open>if\<close>/\<^verbatim>\<open>elif\<close> chains, one per locale, in the order of the source. A
  comparison with a string literal holds exactly for that string.
\<close>

definition rule_text :: "builtins \<Rightarrow> loaded \<Rightarrow> ustring \<Rightarrow> locals \<Rightarrow> error + ustring" where
  "rule_text bi fs lang v =
     (if lang = lang_ja then
        (if trig v = JStr (ascii ''level-up'') \<and> truthy (lvl v) then
           Inr (py_str bi (lvl v) @ txt_level_ja)
         else if trig v = JStr (ascii ''use-item'') \<and> truthy (itm v) then
           ebind (safe_translate (itm v) (item_name_map fs)) (\<lambda>t. Inr (py_str bi t @ txt_use_ja))
         else if truthy (hp v) then Inr txt_friendship_ja
         else if truthy (mv v) then Inr (py_str bi (mv v) @ txt_move_ja)
         else if truthy (tm v) then Inr (py_str bi (tm v) @ txt_time_ja)
         else Inr txt_special_ja)
      else
        (if trig v = JStr (ascii ''level-up'') \<and> truthy (lvl v) then
           Inr (ascii ''Evolves at level '' @ py_str bi (lvl v))
         else if trig v = JStr (ascii ''use-item'') \<and> truthy (itm v) then
           Inr (ascii ''Use '' @ py_str bi (itm v) @ ascii '' to evolve'')
         else if truthy (hp v) then Inr (ascii ''High friendship required'')
         else if truthy (mv v) then Inr (ascii ''Knows move '' @ py_str bi (mv v))
         else if truthy (tm v) then Inr (ascii ''Evolves during '' @ py_str bi (tm v))
         else Inr (ascii ''Special condition'')))"

definition condition_text :: "builtins \<Rightarrow> loaded \<Rightarrow> ustring \<Rightarrow> json \<Rightarrow> error + ustring" where
  "condition_text bi fs lang d = ebind (read_detail d) (rule_text bi fs lang)"

text \<open>The loop \<^verbatim>\<open>for d in details\<close>, appending one text per record.\<close>

fun condition_texts :: "builtins \<Rightarrow> loaded \<Rightarrow> ustring \<Rightarrow> json list \<Rightarrow> error + ustring list" where
  "condition_texts bi fs lang [] = Inr []"
| "condition_texts bi fs lang (d # ds) =
     ebind (condition_text bi fs lang d) (\<lambda>t.
     ebind (condition_texts bi fs lang ds) (\<lambda>ts. Inr (t # ts)))"

definition unknown_condition :: "ustring \<Rightarrow> ustring" where
  "unknown_condition lang = (if lang = lang_ja then txt_unknown_ja else ascii ''Unknown condition'')"

definition format_evolution_conditions ::
    "builtins \<Rightarrow> loaded \<Rightarrow> json \<Rightarrow> ustring \<Rightarrow> error + ustring" where
  "format_evolution_conditions bi fs details lang =
     (if \<not> truthy details then Inr (unknown_condition lang)
      else
        ebind (py_iter details) (\<lambda>ds.
        ebind (condition_texts bi fs lang ds) (\<lambda>texts.
          Inr (if lang = lang_ja then join sep_ja texts else join (ascii ''; '') texts))))"

subsection \<open>get\_evolution\_tree\<close>

text \<open>
  The dict \<^verbatim>\<open>traverse\<close> appends for a node found in the cache. \<^verbatim>\<open>cond or ...\<close> takes
  the default for the empty string.
\<close>

definition tree_node :: "loaded \<Rightarrow> ustring \<Rightarrow> json \<Rightarrow> json \<Rightarrow> ustring \<Rightarrow> error + json" where
  "tree_node fs lang entry name_en cond =
     ebind (if lang = lang_ja then py_item entry key_name_ja else py_item entry key_name_en) (\<lambda>name.
     ebind (py_item entry key_id) (\<lambda>idv.
     ebind (py_item entry key_img) (\<lambda>img.
     ebind (py_item entry key_types) (\<lambda>types.
     ebind (translate_types types lang (type_name_map fs)) (\<lambda>translated.
       Inr (JObj [(ascii ''name'', name), (ascii ''name_en'', name_en), (ascii ''id'', idv),
                  (ascii ''img'', img), (ascii ''types'', translated),
                  (ascii ''condition'',
                   JStr (if cond \<noteq> [] then cond else unknown_condition lang))]))))))"

text \<open>
  \<^verbatim>\<open>traverse(node, cond)\<close>, with the list \<^verbatim>\<open>tree\<close> it appends to passed along. The
  loop over \<^verbatim>\<open>node.get("evolves_to", [])\<close> formats the condition of a child before the
  child is looked up.
\<close>

function traverse ::
    "builtins \<Rightarrow> loaded \<Rightarrow> ustring \<Rightarrow> json \<Rightarrow> json \<Rightarrow> ustring \<Rightarrow> json list \<Rightarrow> error + json list"
where
  "traverse bi fs lang cache_dict node cond tree =
     ebind (py_item node (ascii ''species'')) (\<lambda>species.
     ebind (py_item species (ascii ''name'')) (\<lambda>name_en.
     ebind (py_get cache_dict name_en JNull) (\<lambda>entry.
       if \<not> truthy entry then Inr tree
       else
         ebind (tree_node fs lang entry name_en cond) (\<lambda>n.
         ebind (children node (ascii ''evolves_to'')) (\<lambda>evos.
           for_each
             (\<lambda>evo tree'.
                ebind (get_key evo (ascii ''evolution_details'') (JList [])) (\<lambda>details.
                ebind (format_evolution_conditions bi fs details lang) (\<lambda>next_cond.
                  traverse bi fs lang cache_dict evo next_cond tree')))
             evos (tree @ [n]))))))"
  by pat_completeness auto
termination
  by (relation "measure (\<lambda>(bi, fs, lang, cache_dict, node, cond, tree). size node)")
     (auto dest: children_size)

definition get_evolution_tree ::
    "builtins \<Rightarrow> loaded \<Rightarrow> json \<Rightarrow> ustring \<Rightarrow> json \<Rightarrow> error + json list" where
  "get_evolution_tree bi fs base_en lang cache_dict =
     ebind (py_get cache_dict base_en JNull) (\<lambda>root.
       if \<not> truthy root then Inr []
       else
         ebind (py_item root key_chain) (\<lambda>doc.
         ebind (get_key doc (ascii ''chain'') (JObj [])) (\<lambda>chain.
           traverse bi fs lang cache_dict chain [] [])))"

section \<open>generate\_cache.py: the cache-building pipeline\<close>

subsection \<open>The network as one task sees it\<close>

text \<open>
  What \<^verbatim>\<open>session.get(url)\<close> does is a parameter: the outcome of the \<open>n\<close>-th request a task
  sends, for the URL it asks. A request either raises (anything \<^verbatim>\<open>except Exception\<close>
  catches), or is answered with a status and a body; the body is \<open>None\<close> when
  \<^verbatim>\<open>resp.json()\<close> raises on it. The state records how many requests were sent and, in order,
  every request and every \<^verbatim>\<open>asyncio.sleep\<close>. Console output is not modelled.
\<close>

datatype outcome = ConnError | Reply int "json option"

type_synonym net = "nat \<Rightarrow> json \<Rightarrow> outcome"

datatype event = Get json | Sleep nat

record world =
  sent :: nat
  trace :: "event list"

definition request :: "json \<Rightarrow> world \<Rightarrow> world" where
  "request url w = w\<lparr>sent := Suc (sent w), trace := trace w @ [Get url]\<rparr>"

definition sleep :: "nat \<Rightarrow> world \<Rightarrow> world" where
  "sleep t w = w\<lparr>trace := trace w @ [Sleep t]\<rparr>"

text \<open>
  \<^verbatim>\<open>fetch_json(session, url, retries)\<close>; the second argument counts the attempts that are
  left. \<^verbatim>\<open>return await resp.json()\<close> stands inside the \<^verbatim>\<open>try\<close>, so a body that does not
  decode is retried like a failed connection. The result \<^verbatim>\<open>None\<close> is \<open>JNull\<close>.
\<close>

fun fetch_json :: "net \<Rightarrow> json \<Rightarrow> nat \<Rightarrow> world \<Rightarrow> json \<times> world" where
  "fetch_json net url 0 w = (JNull, w)"
| "fetch_json net url (Suc k) w =
     (case net (sent w) url of
        Reply status body \<Rightarrow>
          if status = 200 then
            (case body of
               Some doc \<Rightarrow> (doc, request url w)
             | None \<Rightarrow> fetch_json net url k (sleep 1 (request url w)))
          else (JNull, request url w)
      | ConnError \<Rightarrow> fetch_json net url k (sleep 1 (request url w)))"

text \<open>Computations that use the network and may raise.\<close>

type_synonym 'a io = "world \<Rightarrow> (error + 'a) \<times> world"

definition io_bind :: "'a io \<Rightarrow> ('a \<Rightarrow> 'b io) \<Rightarrow> 'b io" where
  "io_bind m f = (\<lambda>w. case m w of (Inl e, w') \<Rightarrow> (Inl e, w') | (Inr v, w') \<Rightarrow> f v w')"

definition io_return :: "'a \<Rightarrow> 'a io" where
  "io_return v = (\<lambda>w. (Inr v, w))"

definition io_of :: "error + 'a \<Rightarrow> 'a io" where
  "io_of r = (\<lambda>w. (r, w))"

text \<open>\<^verbatim>\<open>await fetch_json(session, url)\<close> with the default of three attempts.\<close>

definition fetch :: "net \<Rightarrow> json \<Rightarrow> json io" where
  "fetch net url = (\<lambda>w. case fetch_json net url 3 w of (doc, w') \<Rightarrow> (Inr doc, w'))"

subsection \<open>extract\_evolution\_condition\_from\_chain\<close>

definition POKEAPI_BASE :: ustring where
  "POKEAPI_BASE = ascii ''https://pokeapi.co/api/v2''"

definition txt_evolve_ja :: ustring where \<comment> \<open>"de shinka": evolves by\<close>
  "txt_evolve_ja = [0x3067, 0x9032, 0x5316]"

definition txt_condition_unknown :: ustring where \<comment> \<open>"shinka jouken fumei"\<close>
  "txt_condition_unknown = [0x9032, 0x5316, 0x6761, 0x4EF6, 0x4E0D, 0x660E]"

definition txt_mega_label :: ustring where \<comment> \<open>"mega no sugata": mega form\<close>
  "txt_mega_label = [0x30E1, 0x30AC, 0x306E, 0x3059, 0x304C, 0x305F]"

text \<open>\<^verbatim>\<open>data.get("name") if data else None\<close>.\<close>

definition name_if :: "json \<Rightarrow> error + json" where
  "name_if data = (if truthy data then get_key data (ascii ''name'') JNull else Inr JNull)"

text \<open>
  The body of \<^verbatim>\<open>for detail in evo.get("evolution_details", [])\<close>: every branch returns,
  the item first, then the level, then the trigger.
\<close>

definition detail_condition :: "builtins \<Rightarrow> json \<Rightarrow> json \<Rightarrow> error + ustring" where
  "detail_condition bi item_map detail =
     ebind (get_key detail (ascii ''item'') JNull) (\<lambda>item_data.
     ebind (name_if item_data) (\<lambda>item.
     ebind (get_key detail (ascii ''trigger'') JNull) (\<lambda>trigger_data.
     ebind (name_if trigger_data) (\<lambda>trigger.
     ebind (get_key detail (ascii ''min_level'') JNull) (\<lambda>level.
       if truthy item then
         ebind (py_get item_map item item) (\<lambda>t. Inr (py_str bi t @ txt_use_ja))
       else if truthy level then Inr (ascii ''Lv'' @ py_str bi level @ txt_evolve_ja)
       else if truthy trigger then Inr (py_str bi trigger @ txt_evolve_ja)
       else Inr txt_condition_unknown)))))"

text \<open>
  The inner function \<^verbatim>\<open>search(chain)\<close>. A child whose species name is the target returns
  from its first detail record; with no detail record, or another name, the child is searched,
  and \<^verbatim>\<open>if result: return result\<close> returns whatever non-empty string that search gave.
\<close>

function search :: "builtins \<Rightarrow> json \<Rightarrow> json \<Rightarrow> json \<Rightarrow> error + ustring" where
  "search bi item_map target_name chain =
     ebind (children chain (ascii ''evolves_to'')) (\<lambda>evos.
     ebind (for_return
              (\<lambda>evo.
                 ebind (get_key evo (ascii ''species'') (JObj [])) (\<lambda>species.
                 ebind (get_key species (ascii ''name'') JNull) (\<lambda>species_name.
                 ebind (if py_eq species_name target_name
                        then ebind (children evo (ascii ''evolution_details''))
                               (for_return (\<lambda>detail.
                                  ebind (detail_condition bi item_map detail) (\<lambda>t. Inr (Some t))))
                        else Inr None) (\<lambda>returned.
                   case returned of
                     Some t \<Rightarrow> Inr (Some t)
                   | None \<Rightarrow>
                       ebind (search bi item_map target_name evo) (\<lambda>result.
                         Inr (if result \<noteq> [] then Some result else None))))))
              evos) (\<lambda>returned.
       Inr (case returned of Some t \<Rightarrow> t | None \<Rightarrow> txt_condition_unknown)))"
  by pat_completeness auto
termination
  by (relation "measure (\<lambda>(bi, item_map, target_name, chain). size chain)")
     (auto dest: children_size)

definition extract_evolution_condition_from_chain ::
    "builtins \<Rightarrow> json \<Rightarrow> json \<Rightarrow> json \<Rightarrow> error + ustring" where
  "extract_evolution_condition_from_chain bi chain_data target_name item_map =
     ebind (get_key chain_data (ascii ''chain'') (JObj [])) (search bi item_map target_name)"

subsection \<open>extract\_form\_info\<close>

text \<open>
  \<^verbatim>\<open>next((n["name"] for n in doc.get(key, []) if n["language"]["name"] == "ja-Hrkt"), default)\<close>:
  the name of the first entry in the target locale. The loop with \<^verbatim>\<open>break\<close> in
  \<^verbatim>\<open>fetch_pokemon\<close> computes the same with the default \<^verbatim>\<open>None\<close>.
\<close>

definition first_ja :: "json \<Rightarrow> ustring \<Rightarrow> json \<Rightarrow> error + json" where
  "first_ja doc k dflt =
     ebind (children doc k) (\<lambda>ns.
     ebind (for_return
              (\<lambda>n. ebind (py_item n (ascii ''language'')) (\<lambda>language.
                    ebind (py_item language (ascii ''name'')) (\<lambda>l.
                      if l = JStr (ascii ''ja-Hrkt'')
                      then ebind (py_item n (ascii ''name'')) (\<lambda>v. Inr (Some v))
                      else Inr None)))
              ns) (\<lambda>found.
       Inr (case found of Some v \<Rightarrow> v | None \<Rightarrow> dflt)))"

text \<open>
  \<^verbatim>\<open>d["sprites"]["other"]["official-artwork"]["front_default"] or d["sprites"]["front_default"]\<close>.
\<close>

definition artwork :: "json \<Rightarrow> error + json" where
  "artwork d =
     ebind (py_item d (ascii ''sprites'')) (\<lambda>sprites.
     ebind (py_item sprites (ascii ''other'')) (\<lambda>other.
     ebind (py_item other (ascii ''official-artwork'')) (\<lambda>official.
     ebind (py_item official (ascii ''front_default'')) (\<lambda>a.
       if truthy a then Inr a
       else ebind (py_item d (ascii ''sprites'')) (\<lambda>sprites'.
            py_item sprites' (ascii ''front_default''))))))"

definition extract_form_info :: "net \<Rightarrow> builtins \<Rightarrow> json \<Rightarrow> json \<Rightarrow> json \<Rightarrow> json io" where
  "extract_form_info net bi form_detail item_map evolution_chain =
     io_bind (io_of (py_item form_detail (ascii ''name''))) (\<lambda>form_name_en.
     io_bind (io_of (ebind (get_key form_detail (ascii ''species'') (JObj [])) (\<lambda>sp.
                     get_key sp (ascii ''url'') JNull))) (\<lambda>form_species_url.
     io_bind (if truthy form_species_url then fetch net form_species_url
              else io_return JNull) (\<lambda>form_species_data.
     io_bind (io_of (if truthy form_species_data
                     then first_ja form_species_data (ascii ''names'') form_name_en
                     else Inr form_name_en)) (\<lambda>form_name_ja.
     io_bind (io_of (if truthy form_species_data
                     then first_ja form_species_data (ascii ''form_names'') (JStr [])
                     else Inr (JStr []))) (\<lambda>form_label.
     io_bind (io_of (get_key form_detail (ascii ''is_mega'') (JBool False))) (\<lambda>is_mega.
     io_bind (io_of (artwork form_detail)) (\<lambda>image_url.
     io_bind (io_of (if truthy evolution_chain
                     then ebind (extract_evolution_condition_from_chain bi evolution_chain
                                   form_name_en item_map) (\<lambda>c. Inr (JStr c))
                     else Inr (JStr []))) (\<lambda>evolution_condition.
       io_return
         (JObj [(ascii ''name_en'', form_name_en), (ascii ''name_ja'', form_name_ja),
                (ascii ''img'', image_url),
                (ascii ''form_label'',
                 if truthy is_mega \<and> \<not> truthy form_label then JStr txt_mega_label
                 else form_label),
                (ascii ''is_mega'', is_mega),
                (ascii ''evolution_condition'', evolution_condition)])))))))))"

subsection \<open>fetch\_pokemon\<close>

text \<open>The loop over \<^verbatim>\<open>species_data.get("varieties", [])\<close>, appending to \<^verbatim>\<open>forms_data\<close>.\<close>

fun varieties_loop :: "net \<Rightarrow> builtins \<Rightarrow> json \<Rightarrow> json \<Rightarrow> json list \<Rightarrow> json list \<Rightarrow> json list io" where
  "varieties_loop net bi item_map evolution_chain [] forms_data = io_return forms_data"
| "varieties_loop net bi item_map evolution_chain (variety # vs) forms_data =
     io_bind (io_of (ebind (py_item variety (ascii ''pokemon'')) (\<lambda>p.
                     py_item p (ascii ''url'')))) (\<lambda>form_url.
     io_bind (fetch net form_url) (\<lambda>form_detail.
       if truthy form_detail then
         io_bind (extract_form_info net bi form_detail item_map evolution_chain) (\<lambda>form_info.
           varieties_loop net bi item_map evolution_chain vs (forms_data @ [form_info]))
       else varieties_loop net bi item_map evolution_chain vs forms_data))"

text \<open>
  The block under \<^verbatim>\<open>if species_data\<close>: the display name, the evolution chain and the
  forms.
\<close>

definition species_part :: "net \<Rightarrow> builtins \<Rightarrow> json \<Rightarrow> json \<Rightarrow> (json \<times> json \<times> json list) io" where
  "species_part net bi item_map species_data =
     io_bind (io_of (first_ja species_data (ascii ''names'') JNull)) (\<lambda>name_ja.
     io_bind (io_of (ebind (get_key species_data (ascii ''evolution_chain'') (JObj [])) (\<lambda>c.
                     get_key c (ascii ''url'') JNull))) (\<lambda>evolution_chain_url.
     io_bind (if truthy evolution_chain_url then fetch net evolution_chain_url
              else io_return JNull) (\<lambda>evolution_chain.
     io_bind (io_of (children species_data (ascii ''varieties''))) (\<lambda>varieties.
     io_bind (varieties_loop net bi item_map evolution_chain varieties []) (\<lambda>forms_data.
       io_return (name_ja, evolution_chain, forms_data))))))"

text \<open>
  \<^verbatim>\<open>[t["type"]["name"] for t in data["types"]]\<close> and \<^verbatim>\<open>data["species"]["url"]\<close>.
\<close>

definition type_names :: "json \<Rightarrow> error + json list" where
  "type_names data =
     ebind (py_item data (ascii ''types'')) (\<lambda>ts.
     ebind (py_iter ts)
       (map_e (\<lambda>t. ebind (py_item t (ascii ''type'')) (\<lambda>ty. py_item ty (ascii ''name'')))))"

definition species_url_of :: "json \<Rightarrow> error + json" where
  "species_url_of data =
     ebind (py_item data (ascii ''species'')) (\<lambda>sp. py_item sp (ascii ''url''))"

definition fetch_pokemon :: "net \<Rightarrow> builtins \<Rightarrow> json \<Rightarrow> json \<Rightarrow> json io" where
  "fetch_pokemon net bi pokemon_id item_map =
     io_bind (fetch net (JStr (POKEAPI_BASE @ ascii ''/pokemon/'' @ py_str bi pokemon_id))) (\<lambda>data.
       if \<not> truthy data then io_return JNull
       else
         io_bind (io_of (py_item data (ascii ''name''))) (\<lambda>name_en.
         io_bind (io_of (type_names data)) (\<lambda>types.
         io_bind (io_of (artwork data)) (\<lambda>img.
         io_bind (io_of (species_url_of data)) (\<lambda>species_url.
         io_bind (fetch net species_url) (\<lambda>species_data.
         io_bind (if truthy species_data then species_part net bi item_map species_data
                  else io_return (JNull, JNull, [])) (\<lambda>(name_ja, evolution_chain, forms_data).
         io_bind (io_of (py_item data (ascii ''id''))) (\<lambda>idv.
           io_return
             (JObj [(key_id, idv), (key_name_en, name_en),
                    (key_name_ja, if truthy name_ja then name_ja else name_en),
                    (key_types, JList types), (key_img, img),
                    (key_chain, evolution_chain), (key_forms, JList forms_data)])))))))))"

subsection \<open>fetch\_pokemon\_moves\<close>

definition key_pokemon :: ustring where \<comment> \<open>"pokemon"\<close>
  "key_pokemon = [0x30DD, 0x30B1, 0x30E2, 0x30F3]"

definition key_move :: ustring where \<comment> \<open>"waza-mei", the move slug\<close>
  "key_move = [0x6280, 0x540D]"

definition key_move_ja :: ustring where \<comment> \<open>"waza-mei\_nihongo", the localized move name\<close>
  "key_move_ja = [0x6280, 0x540D, 0x005F, 0x65E5, 0x672C, 0x8A9E]"

definition key_version :: ustring where \<comment> \<open>"baajon", the version group\<close>
  "key_version = [0x30D0, 0x30FC, 0x30B8, 0x30E7, 0x30F3]"

definition key_level :: ustring where \<comment> \<open>"shuutoku reberu", the level learned at\<close>
  "key_level = [0x7FD2, 0x5F97, 0x30EC, 0x30D9, 0x30EB]"

definition key_method :: ustring where \<comment> \<open>"shuutoku houhou", the learn method\<close>
  "key_method = [0x7FD2, 0x5F97, 0x65B9, 0x6CD5]"

text \<open>The row appended for one entry of \<^verbatim>\<open>m.get("version_group_details", [])\<close>.\<close>

definition move_row :: "json \<Rightarrow> json \<Rightarrow> json \<Rightarrow> json \<Rightarrow> json \<Rightarrow> error + json" where
  "move_row pokemon_name version_map move_name_en move_name_ja version_detail =
     ebind (ebind (py_item version_detail (ascii ''version_group'')) (\<lambda>g.
            py_item g (ascii ''name''))) (\<lambda>version_en.
     ebind (py_get version_map version_en version_en) (\<lambda>version_ja.
     ebind (py_item version_detail (ascii ''level_learned_at'')) (\<lambda>level_learned.
     ebind (ebind (py_item version_detail (ascii ''move_learn_method'')) (\<lambda>lm.
            py_item lm (ascii ''name''))) (\<lambda>learn_method_en.
       Inr (JObj [(key_pokemon, pokemon_name), (key_move, move_name_en),
                  (key_move_ja, move_name_ja), (key_version, version_ja),
                  (key_level, level_learned), (key_method, learn_method_en)])))))"

text \<open>
  The loop over \<^verbatim>\<open>data.get("moves", [])\<close>. The detail record of the move is fetched and
  \<^verbatim>\<open>move_data.get("names", [])\<close> is evaluated on the result as it comes.
\<close>

fun moves_loop :: "net \<Rightarrow> json \<Rightarrow> json \<Rightarrow> json list \<Rightarrow> json list \<Rightarrow> json list io" where
  "moves_loop net pokemon_name version_map [] moves_list = io_return moves_list"
| "moves_loop net pokemon_name version_map (m # ms) moves_list =
     io_bind (io_of (ebind (py_item m (ascii ''move'')) (\<lambda>mo. py_item mo (ascii ''name'')))) (\<lambda>move_name_en.
     io_bind (io_of (ebind (py_item m (ascii ''move'')) (\<lambda>mo. py_item mo (ascii ''url'')))) (\<lambda>move_url.
     io_bind (fetch net move_url) (\<lambda>move_data.
     io_bind (io_of (first_ja move_data (ascii ''names'') move_name_en)) (\<lambda>move_name_ja.
     io_bind (io_of (children m (ascii ''version_group_details''))) (\<lambda>version_details.
     io_bind (io_of (map_e (move_row pokemon_name version_map move_name_en move_name_ja)
                       version_details)) (\<lambda>rows.
       moves_loop net pokemon_name version_map ms (moves_list @ rows)))))))"

definition fetch_pokemon_moves :: "net \<Rightarrow> builtins \<Rightarrow> json \<Rightarrow> json \<Rightarrow> json list io" where
  "fetch_pokemon_moves net bi pokemon_name version_map =
     io_bind (fetch net (JStr (POKEAPI_BASE @ ascii ''/pokemon/'' @ py_str bi pokemon_name))) (\<lambda>data.
       if \<not> truthy data then io_return []
       else
         io_bind (io_of (children data (ascii ''moves''))) (\<lambda>ms.
           moves_loop net pokemon_name version_map ms []))"

subsection \<open>main: collecting and sorting the entity records\<close>

text \<open>
  \<^verbatim>\<open>main\<close> starts one \<^verbatim>\<open>fetch_pokemon\<close> task for each ID of \<^verbatim>\<open>range(1, 1026)\<close> and awaits
  them as they complete. Awaiting a task gives its value or re-raises its exception; a value
  that is not falsy is appended to \<^verbatim>\<open>pokemon_list\<close>.
\<close>

definition task_ids :: "nat list" where
  "task_ids = [1..<1026]"

fun gather :: "(error + json) list \<Rightarrow> json list \<Rightarrow> error + json list" where
  "gather [] pokemon_list = Inr pokemon_list"
| "gather (task # tasks) pokemon_list =
     ebind task (\<lambda>res. gather tasks (if truthy res then pokemon_list @ [res] else pokemon_list))"

text \<open>
  \<^verbatim>\<open>sorted(xs, key=...)\<close>: the keys are computed first; a list of at most one element is
  returned without a comparison; numbers (with \<^verbatim>\<open>True\<close> and \<^verbatim>\<open>False\<close> as 1 and 0) and
  strings are ordered by a stable sort. Every other list of keys is left to the parameter
  \<open>sorted_rest\<close>.
\<close>

fun as_str :: "json \<Rightarrow> ustring option" where
  "as_str (JStr s) = Some s"
| "as_str _ = None"

definition py_sorted_by ::
    "builtins \<Rightarrow> (json \<Rightarrow> error + json) \<Rightarrow> json list \<Rightarrow> error + json list" where
  "py_sorted_by bi key xs =
     ebind (map_e key xs) (\<lambda>ks.
       if length xs \<le> 1 then Inr xs
       else if list_all (\<lambda>k. as_num k \<noteq> None) ks then
         Inr (map snd (sort_key fst (zip (map (\<lambda>k. the (as_num k)) ks) xs)))
       else if list_all (\<lambda>k. as_str k \<noteq> None) ks then
         Inr (map snd (sort_key fst (zip (map (\<lambda>k. the (as_str k)) ks) xs)))
       else sorted_rest bi ks xs)"

text \<open>
  The list written to \<^verbatim>\<open>pokemon_cache.json\<close>. \<open>task i\<close> is what awaiting the task of ID
  \<open>i\<close> gives, \<open>order\<close> is the order in which the tasks complete.
\<close>

definition pokemon_list_sorted ::
    "builtins \<Rightarrow> (nat \<Rightarrow> error + json) \<Rightarrow> nat list \<Rightarrow> error + json list" where
  "pokemon_list_sorted bi task order =
     ebind (gather (map task order) []) (py_sorted_by bi (\<lambda>x. py_item x key_id))"

declare traverse.simps [simp del]
declare search.simps [simp del]

section \<open>Concrete inputs\<close>

text \<open>
  The builtins on ASCII strings, for evaluating the model on ASCII data: \<^verbatim>\<open>lower\<close> maps
  A-Z to a-z, \<^verbatim>\<open>strip\<close> removes blanks at both ends. None of the inputs below prints a list
  or a dict or sorts by keys other than integers, so \<open>repr\<close> and \<open>sorted_rest\<close> are
  never applied.
\<close>

definition ascii_builtins :: builtins where
  "ascii_builtins =
     \<lparr>lower = map (\<lambda>c. if 65 \<le> c \<and> c \<le> 90 then c + 32 else c),
      strip = (\<lambda>s. rev (dropWhile (\<lambda>c. c = 32) (rev (dropWhile (\<lambda>c. c = 32) s)))),
      repr = (\<lambda>v. []),
      sorted_rest = (\<lambda>ks xs. Inr xs)\<rparr>"

definition no_files :: loaded where
  "no_files = \<lparr>item_name_map = JObj [], type_name_map = JObj []\<rparr>"

text \<open>
  Two detail records with a minimum level of 16 and the item \<^verbatim>\<open>fire-stone\<close>, one triggered
  by level-up and one by use-item.
\<close>

definition level_and_item :: json where
  "level_and_item =
     JObj [(ascii ''trigger'', JObj [(ascii ''name'', JStr (ascii ''level-up''))]),
           (ascii ''min_level'', JInt 16),
           (ascii ''item'', JObj [(ascii ''name'', JStr (ascii ''fire-stone''))])]"

definition item_and_level :: json where
  "item_and_level =
     JObj [(ascii ''trigger'', JObj [(ascii ''name'', JStr (ascii ''use-item''))]),
           (ascii ''min_level'', JInt 16),
           (ascii ''item'', JObj [(ascii ''name'', JStr (ascii ''fire-stone''))])]"

text \<open>The record \<^verbatim>\<open>fetch_pokemon\<close> assembles for ID 25 when its species record is absent.\<close>

definition pikachu_no_species :: json where
  "pikachu_no_species =
     JObj [(key_id, JInt 25), (key_name_en, JStr (ascii ''pikachu'')),
           (key_name_ja, JStr (ascii ''pikachu'')), (key_types, JList [JStr (ascii ''electric'')]),
           (key_img, JStr (ascii ''https://img/25.png'')), (key_chain, JNull),
           (key_forms, JList [])]"

text \<open>Two cached entities with Japanese display names ("pikachuu", "raichuu").\<close>

definition name_pikachu_ja :: ustring where
  "name_pikachu_ja = [0x30D4, 0x30AB, 0x30C1, 0x30E5, 0x30A6]"

definition name_raichu_ja :: ustring where
  "name_raichu_ja = [0x30E9, 0x30A4, 0x30C1, 0x30E5, 0x30A6]"

definition entity :: "int \<Rightarrow> ustring \<Rightarrow> ustring \<Rightarrow> json" where
  "entity n slug display =
     JObj [(key_id, JInt n), (key_name_en, JStr slug), (key_name_ja, JStr display),
           (key_types, JList [JStr (ascii ''electric'')]), (key_img, JNull),
           (key_chain, JNull), (key_forms, JList [])]"


text \<open>
  Networks: one on which every request raises, one that answers every request with status
  404, and the world before the first request.
\<close>

definition net_down :: net where
  "net_down = (\<lambda>n url. ConnError)"

definition net_404 :: net where
  "net_404 = (\<lambda>n url. Reply 404 None)"

definition start :: world where
  "start = \<lparr>sent = 0, trace = []\<rparr>"

text \<open>
  The primary record of ID 25, with one move learned in one version group.
\<close>

definition pikachu_data :: json where
  "pikachu_data =
     JObj [(ascii ''id'', JInt 25), (ascii ''name'', JStr (ascii ''pikachu'')),
           (ascii ''types'', JList [JObj [(ascii ''type'', JObj [(ascii ''name'', JStr (ascii ''electric''))])]]),
           (ascii ''sprites'',
            JObj [(ascii ''other'',
                   JObj [(ascii ''official-artwork'',
                          JObj [(ascii ''front_default'', JStr (ascii ''https://img/25.png''))])])]),
           (ascii ''species'', JObj [(ascii ''url'', JStr (ascii ''https://pokeapi.co/api/v2/pokemon-species/25/''))]),
           (ascii ''moves'',
            JList [JObj [(ascii ''move'',
                          JObj [(ascii ''name'', JStr (ascii ''thunder-shock'')),
                                (ascii ''url'', JStr (ascii ''https://pokeapi.co/api/v2/move/84/''))]),
                         (ascii ''version_group_details'',
                          JList [JObj [(ascii ''version_group'', JObj [(ascii ''name'', JStr (ascii ''red-blue''))]),
                                       (ascii ''level_learned_at'', JInt 1),
                                       (ascii ''move_learn_method'', JObj [(ascii ''name'', JStr (ascii ''level-up''))])]])]])]"

text \<open>Only the first request is answered with the primary record; every later one gets 404.\<close>

definition net_primary_only :: net where
  "net_primary_only = (\<lambda>n url. if n = 0 then Reply 200 (Some pikachu_data) else Reply 404 None)"

text \<open>
  An evolution chain whose root has two children, each evolving by the use of a stone, and
  the detail record of a form.
\<close>

definition stone_node :: "string \<Rightarrow> string \<Rightarrow> json" where
  "stone_node slug stone =
     JObj [(ascii ''species'', JObj [(ascii ''name'', JStr (ascii slug))]),
           (ascii ''evolution_details'',
            JList [JObj [(ascii ''item'', JObj [(ascii ''name'', JStr (ascii stone))]),
                         (ascii ''trigger'', JObj [(ascii ''name'', JStr (ascii ''use-item''))]),
                         (ascii ''min_level'', JNull)]]),
           (ascii ''evolves_to'', JList [])]"

definition eevee_chain :: json where
  "eevee_chain =
     JObj [(ascii ''chain'',
            JObj [(ascii ''species'', JObj [(ascii ''name'', JStr (ascii ''eevee''))]),
                  (ascii ''evolves_to'',
                   JList [stone_node ''vaporeon'' ''water-stone'',
                          stone_node ''jolteon'' ''thunder-stone''])])]"

definition form_of :: "string \<Rightarrow> json" where
  "form_of slug =
     JObj [(ascii ''name'', JStr (ascii slug)),
           (ascii ''species'', JObj [(ascii ''url'', JStr (ascii ''https://pokeapi.co/api/v2/pokemon-species/0/''))]),
           (ascii ''sprites'',
            JObj [(ascii ''other'',
                   JObj [(ascii ''official-artwork'',
                          JObj [(ascii ''front_default'', JStr (ascii ''https://img/0.png''))])])])]"






text \<open>
  An outcome of the tasks of \<^verbatim>\<open>main\<close>: only the tasks of the IDs 25 and 26 return a
  record, each with the ID it was asked for.
\<close>

definition two_tasks :: "nat \<Rightarrow> error + json" where
  "two_tasks i =
     (if i = 25 then Inr (entity 25 (ascii ''pikachu'') name_pikachu_ja)
      else if i = 26 then Inr (entity 26 (ascii ''raichu'') name_raichu_ja)
      else Inr JNull)"

section \<open>Predicates the properties are stated with\<close>

text \<open>
  A node carries the target name, and a chain mentions it: some node below the root carries
  it. Both follow the walk of \<^verbatim>\<open>search\<close> over \<^verbatim>\<open>evolves_to\<close>.
\<close>

definition named :: "json \<Rightarrow> json \<Rightarrow> bool" where
  "named target_name evo =
     (case ebind (get_key evo (ascii ''species'') (JObj [])) (\<lambda>species.
           get_key species (ascii ''name'') JNull) of
        Inr species_name \<Rightarrow> py_eq species_name target_name
      | Inl e \<Rightarrow> False)"

function mentions :: "json \<Rightarrow> json \<Rightarrow> bool" where
  "mentions target_name chain =
     (case children chain (ascii ''evolves_to'') of
        Inr evos \<Rightarrow> list_ex (\<lambda>evo. named target_name evo \<or> mentions target_name evo) evos
      | Inl e \<Rightarrow> False)"
  by pat_completeness auto
termination
  by (relation "measure (\<lambda>(target_name, chain). size chain)") (auto dest: children_size)

declare mentions.simps [simp del]

definition chain_mentions :: "json \<Rightarrow> json \<Rightarrow> bool" where
  "chain_mentions target_name chain_data =
     (case get_key chain_data (ascii ''chain'') (JObj []) of
        Inr chain \<Rightarrow> mentions target_name chain
      | Inl e \<Rightarrow> False)"





text \<open>
  The two ways an attempt of \<^verbatim>\<open>fetch_json\<close> fails: the request or the decoding of the
  body raises, or the response has a status other than 200.
\<close>

definition raises :: "outcome \<Rightarrow> bool" where
  "raises out = (case out of ConnError \<Rightarrow> True | Reply status body \<Rightarrow> status = 200 \<and> body = None)"

definition refused :: "outcome \<Rightarrow> bool" where
  "refused out = (case out of ConnError \<Rightarrow> False | Reply status body \<Rightarrow> status \<noteq> 200)"


text \<open>
  A node of the returned tree is in the cache: its \<^verbatim>\<open>name_en\<close> is a key of
  \<^verbatim>\<open>cache_dict\<close> bound to a record that is not falsy.
\<close>

definition in_cache :: "json \<Rightarrow> json \<Rightarrow> bool" where
  "in_cache cache_dict n =
     (case py_item n (ascii ''name_en'') of
        Inr name_en \<Rightarrow>
          (case py_get cache_dict name_en JNull of Inr entry \<Rightarrow> truthy entry | Inl e \<Rightarrow> False)
      | Inl e \<Rightarrow> False)"




section \<open>Basic facts\<close>

lemmas key_defs = key_id_def key_name_en_def key_name_ja_def key_types_def key_img_def
  key_chain_def key_forms_def

lemma ebind_Inr [simp]: "ebind (Inr v) f = f v"
  by (simp add: ebind_def)

lemma ebind_Inl [simp]: "ebind (Inl e) f = Inl e"
  by (simp add: ebind_def)

lemma ebind_eq_Inr: "ebind m f = Inr r \<longleftrightarrow> (\<exists>v. m = Inr v \<and> f v = Inr r)"
  by (cases m) simp_all

lemma ascii_eq_iff [simp]: "ascii s = ascii t \<longleftrightarrow> s = t"
  by (simp add: ascii_def inj_map_eq_map inj_on_def)

lemma ascii_eq_Nil [simp]: "ascii s = [] \<longleftrightarrow> s = []" "[] = ascii s \<longleftrightarrow> s = []"
  by (auto simp: ascii_def)


lemma str_int_16: "str_int 16 = ascii ''16''"
  by (simp add: str_int_def digits.simps ascii_def)

lemma str_int_25: "str_int 25 = ascii ''25''"
  by (simp add: str_int_def digits.simps ascii_def)



text \<open>Computations on the network: one step at a time.\<close>

lemma io_bind_of_Inr [simp]: "io_bind (io_of (Inr v)) f w = f v w"
  by (simp add: io_bind_def io_of_def)

lemma io_bind_of_Inl [simp]: "io_bind (io_of (Inl e)) f w = (Inl e, w)"
  by (simp add: io_bind_def io_of_def)

lemma io_bind_return [simp]: "io_bind (io_return v) f w = f v w"
  by (simp add: io_bind_def io_return_def)

lemma io_return_apply [simp]: "io_return v w = (Inr v, w)"
  by (simp add: io_return_def)

lemma io_bind_fetch:
  "fetch_json net url 3 w = (doc, w') \<Longrightarrow> io_bind (fetch net url) f w = f doc w'"
  by (simp add: io_bind_def fetch_def)

lemma io_bind_eq_Inr:
  "io_bind m f w = (Inr r, w') \<longleftrightarrow> (\<exists>v w1. m w = (Inr v, w1) \<and> f v w1 = (Inr r, w'))"
  by (cases "m w") (auto simp: io_bind_def split: sum.splits)

lemma io_of_eq [simp]: "io_of x w = (y, w1) \<longleftrightarrow> x = y \<and> w1 = w"
  by (auto simp: io_of_def)

text \<open>A list of one detail record is formatted as that record, without a separator.\<close>

lemma format_single:
  "format_evolution_conditions bi fs (JList [d]) lang =
     ebind (read_detail d) (rule_text bi fs lang)"
  by (cases "ebind (read_detail d) (rule_text bi fs lang)")
     (simp_all add: format_evolution_conditions_def condition_text_def)

lemma read_level_and_item:
  "read_detail level_and_item =
     Inr \<lparr>trig = JStr (ascii ''level-up''), lvl = JInt 16, itm = JStr (ascii ''fire-stone''),
          hp = JNull, tm = JNull, mv = JNull\<rparr>"
  by (simp add: read_detail_def level_and_item_def opt_name_def get_key_def)

lemma read_item_and_level:
  "read_detail item_and_level =
     Inr \<lparr>trig = JStr (ascii ''use-item''), lvl = JInt 16, itm = JStr (ascii ''fire-stone''),
          hp = JNull, tm = JNull, mv = JNull\<rparr>"
  by (simp add: read_detail_def item_and_level_def opt_name_def get_key_def)


section \<open>The evolution-condition formatter\<close>

text \<open>
  Claim C1 says that a detail record with both a minimum level and an item is formatted as
  a level-up whatever its trigger kind. Rule (a) of the source tests the trigger kind first:
  the record \<open>item_and_level\<close>, triggered by use-item, has a minimum level of 16 and an item
  and is formatted as the use of the item, in both locales.
\<close>

theorem C1_item_trigger_counterexample:
  "read_detail item_and_level =
     Inr \<lparr>trig = JStr (ascii ''use-item''), lvl = JInt 16, itm = JStr (ascii ''fire-stone''),
          hp = JNull, tm = JNull, mv = JNull\<rparr> \<and>
   format_evolution_conditions ascii_builtins no_files (JList [item_and_level]) (ascii ''English'')
     = Inr (ascii ''Use fire-stone to evolve'') \<and>
   format_evolution_conditions ascii_builtins no_files (JList [item_and_level]) (ascii ''English'')
     \<noteq> Inr (ascii ''Evolves at level 16'') \<and>
   format_evolution_conditions ascii_builtins no_files (JList [item_and_level]) lang_ja
     = Inr (ascii ''fire-stone'' @ txt_use_ja) \<and>
   format_evolution_conditions ascii_builtins no_files (JList [item_and_level]) lang_ja
     \<noteq> Inr (ascii ''16'' @ txt_level_ja)"
  by (simp add: format_single read_item_and_level rule_text_def safe_translate_def no_files_def
      lang_ja_def ascii_def txt_use_ja_def txt_level_ja_def)

text \<open>
  Claim C1, amended: a detail record whose trigger kind is level-up and whose minimum level
  is set resolves to the level-up text in both locales, whether or not an item is set; a
  record triggered by use-item with an item resolves to the item-use text, whether or not a
  minimum level is set.
\<close>

theorem C1_level_up_trigger_first:
  assumes "read_detail d = Inr v"
  shows "(trig v = JStr (ascii ''level-up'') \<and> truthy (lvl v) \<longrightarrow>
            format_evolution_conditions bi fs (JList [d]) lang =
              Inr (if lang = lang_ja then py_str bi (lvl v) @ txt_level_ja
                   else ascii ''Evolves at level '' @ py_str bi (lvl v))) \<and>
         (trig v = JStr (ascii ''use-item'') \<and> truthy (itm v) \<longrightarrow>
            format_evolution_conditions bi fs (JList [d]) lang =
              (if lang = lang_ja
               then ebind (safe_translate (itm v) (item_name_map fs))
                      (\<lambda>t. Inr (py_str bi t @ txt_use_ja))
               else Inr (ascii ''Use '' @ py_str bi (itm v) @ ascii '' to evolve'')))"
  using assms by (simp add: format_single rule_text_def)

theorem C1_level_up_trigger_first_witness:
  "read_detail level_and_item =
     Inr \<lparr>trig = JStr (ascii ''level-up''), lvl = JInt 16, itm = JStr (ascii ''fire-stone''),
          hp = JNull, tm = JNull, mv = JNull\<rparr> \<and>
   format_evolution_conditions ascii_builtins no_files (JList [level_and_item]) (ascii ''English'')
     = Inr (ascii ''Evolves at level 16'') \<and>
   format_evolution_conditions ascii_builtins no_files (JList [level_and_item]) lang_ja
     = Inr (ascii ''16'' @ txt_level_ja) \<and>
   format_evolution_conditions ascii_builtins no_files (JList [item_and_level]) (ascii ''English'')
     = Inr (ascii ''Use fire-stone to evolve'')"
  using C1_level_up_trigger_first [OF read_level_and_item, of ascii_builtins no_files "ascii ''English''"]
        C1_level_up_trigger_first [OF read_level_and_item, of ascii_builtins no_files lang_ja]
        C1_level_up_trigger_first [OF read_item_and_level, of ascii_builtins no_files "ascii ''English''"]
  by (simp add: read_level_and_item str_int_16 lang_ja_def ascii_def)



section \<open>The evolution tree\<close>

lemma for_each_invariant:
  assumes "for_each f xs s = Inr s'" and "I s"
    and "\<And>x u u'. x \<in> set xs \<Longrightarrow> I u \<Longrightarrow> f x u = Inr u' \<Longrightarrow> I u'"
  shows "I s'"
  using assms
proof (induction xs arbitrary: s)
  case Nil
  then show ?case by simp
next
  case (Cons x xs)
  from Cons.prems(1) obtain u where u: "f x s = Inr u" and r: "for_each f xs u = Inr s'"
    by (auto simp: ebind_eq_Inr)
  have "I u" using Cons.prems(2,3) u by auto
  with r show ?case
    by (rule Cons.IH) (use Cons.prems(3) in auto)
qed

lemma tree_node_name_en:
  "tree_node fs lang entry name_en cond = Inr n \<Longrightarrow> py_item n (ascii ''name_en'') = Inr name_en"
  by (auto simp: tree_node_def ebind_eq_Inr ascii_def)

lemma traverse_in_cache:
  "traverse bi fs lang cache_dict node cond tree = Inr tree' \<Longrightarrow>
   list_all (in_cache cache_dict) tree \<Longrightarrow> list_all (in_cache cache_dict) tree'"
proof (induction bi fs lang cache_dict node cond tree arbitrary: tree' rule: traverse.induct)
  case (1 bi fs lang cache_dict node cond tree)
  from "1.prems"(1) obtain species name_en entry where
    sp: "py_item node (ascii ''species'') = Inr species" and
    nm: "py_item species (ascii ''name'') = Inr name_en" and
    en: "py_get cache_dict name_en JNull = Inr entry" and
    rest: "(if \<not> truthy entry then Inr tree
       else
         ebind (tree_node fs lang entry name_en cond) (\<lambda>n.
         ebind (children node (ascii ''evolves_to'')) (\<lambda>evos.
           for_each
             (\<lambda>evo tree'.
                ebind (get_key evo (ascii ''evolution_details'') (JList [])) (\<lambda>details.
                ebind (format_evolution_conditions bi fs details lang) (\<lambda>next_cond.
                  traverse bi fs lang cache_dict evo next_cond tree')))
             evos (tree @ [n])))) = Inr tree'"
    by (subst (asm) traverse.simps) (auto simp: ebind_eq_Inr)
  show ?case
  proof (cases "truthy entry")
    case False
    with rest "1.prems"(2) show ?thesis by simp
  next
    case True
    with rest obtain n evos where
      n: "tree_node fs lang entry name_en cond = Inr n" and
      ev: "children node (ascii ''evolves_to'') = Inr evos" and
      loop: "for_each
             (\<lambda>evo tree'.
                ebind (get_key evo (ascii ''evolution_details'') (JList [])) (\<lambda>details.
                ebind (format_evolution_conditions bi fs details lang) (\<lambda>next_cond.
                  traverse bi fs lang cache_dict evo next_cond tree')))
             evos (tree @ [n]) = Inr tree'"
      by (auto simp: ebind_eq_Inr)
    have "in_cache cache_dict n"
      using tree_node_name_en [OF n] en True by (simp add: in_cache_def)
    then have start: "list_all (in_cache cache_dict) (tree @ [n])"
      using "1.prems"(2) by simp
    show ?thesis
    proof (rule for_each_invariant [OF loop, where I = "list_all (in_cache cache_dict)"])
      show "list_all (in_cache cache_dict) (tree @ [n])" by (rule start)
    next
      fix evo u u'
      assume evo: "evo \<in> set evos" and u: "list_all (in_cache cache_dict) u"
        and step: "ebind (get_key evo (ascii ''evolution_details'') (JList [])) (\<lambda>details.
                ebind (format_evolution_conditions bi fs details lang) (\<lambda>next_cond.
                  traverse bi fs lang cache_dict evo next_cond u)) = Inr u'"
      from step obtain details next_cond where
        d: "get_key evo (ascii ''evolution_details'') (JList []) = Inr details" and
        c: "format_evolution_conditions bi fs details lang = Inr next_cond" and
        t: "traverse bi fs lang cache_dict evo next_cond u = Inr u'"
        by (auto simp: ebind_eq_Inr)
      show "list_all (in_cache cache_dict) u'"
        by (rule "1.IH" [OF sp nm en _ n ev evo d c t u]) (simp add: True)
    qed
  qed
qed

lemma get_evolution_tree_in_cache:
  "get_evolution_tree bi fs base_en lang cache_dict = Inr tree \<Longrightarrow>
   list_all (in_cache cache_dict) tree"
  by (auto simp: get_evolution_tree_def ebind_eq_Inr split: if_splits dest: traverse_in_cache)


text \<open>
  Claim C2 says that \<^verbatim>\<open>get_evolution_tree\<close> never raises and never returns a node that is
  absent from the cache. The second half holds (\<open>get_evolution_tree_in_cache\<close>). The first
  does not: for the record that \<^verbatim>\<open>fetch_pokemon\<close> writes when the species record is absent,
  whose evolution chain is null, \<^verbatim>\<open>root[...].get("chain", {})\<close> raises AttributeError, in
  both locales.
\<close>

theorem C2_null_chain_raises:
  "get_evolution_tree ascii_builtins no_files (JStr (ascii ''pikachu'')) lang_ja
     (JObj [(ascii ''pikachu'', pikachu_no_species)]) = Inl AttributeError \<and>
   get_evolution_tree ascii_builtins no_files (JStr (ascii ''pikachu'')) (ascii ''English'')
     (JObj [(ascii ''pikachu'', pikachu_no_species)]) = Inl AttributeError"
  by (simp add: get_evolution_tree_def pikachu_no_species_def key_defs get_key_def)

section \<open>Search by name or ID\<close>






section \<open>The fetcher\<close>

lemma fetch_json_refused:
  "refused (net (sent w) url) \<Longrightarrow> fetch_json net url (Suc k) w = (JNull, request url w)"
  by (auto simp: refused_def split: outcome.splits)

lemma fetch_json_raises:
  "raises (net (sent w) url) \<Longrightarrow>
   fetch_json net url (Suc k) w = fetch_json net url k (sleep 1 (request url w))"
  by (auto simp: raises_def split: outcome.splits)

lemma sent_request [simp]: "sent (request url w) = Suc (sent w)"
  by (simp add: request_def)

lemma sent_sleep [simp]: "sent (sleep t w) = sent w"
  by (simp add: sleep_def)

lemma fetch_json_sent: "sent (snd (fetch_json net url k w)) \<le> sent w + k"
proof (induction k arbitrary: w)
  case 0
  then show ?case by simp
next
  case (Suc k)
  have "sent (snd (fetch_json net url k (sleep 1 (request url w)))) \<le> sent w + Suc k"
    using Suc [of "sleep 1 (request url w)"] by simp
  then show ?case
    by (auto split: outcome.splits option.splits)
qed

text \<open>
  Claim C4: an attempt answered with a status other than 200 returns \<^verbatim>\<open>None\<close> at once,
  after that one request and without a sleep; an attempt that raises is followed by a sleep
  of 1 and the next attempt; three attempts that raise give \<^verbatim>\<open>None\<close> after exactly three
  requests, each followed by a sleep of 1; and no call sends more than three requests.
\<close>

theorem C4_fetch_json_retries:
  "(refused (net (sent w) url) \<longrightarrow> fetch_json net url (Suc k) w = (JNull, request url w)) \<and>
   (raises (net (sent w) url) \<longrightarrow>
      fetch_json net url (Suc k) w = fetch_json net url k (sleep 1 (request url w))) \<and>
   (raises (net (sent w) url) \<and> raises (net (sent w + 1) url) \<and> raises (net (sent w + 2) url) \<longrightarrow>
      fetch_json net url 3 w =
        (JNull, w\<lparr>sent := sent w + 3,
                  trace := trace w @ [Get url, Sleep 1, Get url, Sleep 1, Get url, Sleep 1]\<rparr>)) \<and>
   sent (snd (fetch_json net url 3 w)) \<le> sent w + 3"
proof (intro conjI impI)
  assume "raises (net (sent w) url) \<and> raises (net (sent w + 1) url) \<and> raises (net (sent w + 2) url)"
  then have "fetch_json net url (Suc (Suc (Suc 0))) w =
      (JNull, sleep 1 (request url (sleep 1 (request url (sleep 1 (request url w))))))"
    by (simp add: fetch_json_raises del: fetch_json.simps(2))
  then show "fetch_json net url 3 w =
      (JNull, w\<lparr>sent := sent w + 3,
                trace := trace w @ [Get url, Sleep 1, Get url, Sleep 1, Get url, Sleep 1]\<rparr>)"
    by (simp add: numeral_3_eq_3 request_def sleep_def)
qed (simp_all add: fetch_json_refused fetch_json_raises fetch_json_sent del: fetch_json.simps(2))

theorem C4_fetch_json_retries_witness:
  "refused (net_404 (sent start) (JStr (ascii ''u''))) \<and>
   fetch_json net_404 (JStr (ascii ''u'')) 3 start =
     (JNull, \<lparr>sent = 1, trace = [Get (JStr (ascii ''u''))]\<rparr>) \<and>
   raises (net_down (sent start) (JStr (ascii ''u''))) \<and>
   raises (net_down (sent start + 1) (JStr (ascii ''u''))) \<and>
   raises (net_down (sent start + 2) (JStr (ascii ''u''))) \<and>
   fetch_json net_down (JStr (ascii ''u'')) 3 start =
     (JNull, \<lparr>sent = 3, trace = [Get (JStr (ascii ''u'')), Sleep 1, Get (JStr (ascii ''u'')), Sleep 1,
                                   Get (JStr (ascii ''u'')), Sleep 1]\<rparr>)"
proof -
  let ?u = "JStr (ascii ''u'')"
  have r: "refused (net_404 (sent start) ?u)"
    by (simp add: refused_def net_404_def)
  have d: "raises (net_down (sent start) ?u) \<and> raises (net_down (sent start + 1) ?u) \<and>
      raises (net_down (sent start + 2) ?u)"
    by (simp add: raises_def net_down_def)
  from r C4_fetch_json_retries [of net_404 start ?u 2]
  have "fetch_json net_404 ?u (Suc 2) start = (JNull, request ?u start)"
    by blast
  then have 1: "fetch_json net_404 ?u 3 start = (JNull, \<lparr>sent = 1, trace = [Get ?u]\<rparr>)"
    by (simp add: request_def start_def del: fetch_json.simps)
  from d C4_fetch_json_retries [of net_down start ?u 2]
  have "fetch_json net_down ?u 3 start =
      (JNull, start\<lparr>sent := sent start + 3,
                trace := trace start @ [Get ?u, Sleep 1, Get ?u, Sleep 1, Get ?u, Sleep 1]\<rparr>)"
    by blast
  then have 2: "fetch_json net_down ?u 3 start =
     (JNull, \<lparr>sent = 3, trace = [Get ?u, Sleep 1, Get ?u, Sleep 1, Get ?u, Sleep 1]\<rparr>)"
    by (simp add: start_def del: fetch_json.simps)
  from r d 1 2 show ?thesis by blast
qed


section \<open>The entity assembler\<close>

lemma fetch_primary:
  "fetch_json net_primary_only url 3 start = (pikachu_data, request url start)"
  by (simp add: net_primary_only_def start_def numeral_3_eq_3)

lemma fetch_later:
  "fetch_json net_primary_only url 3 (request url' start) = (JNull, request url (request url' start))"
  by (simp add: net_primary_only_def start_def numeral_3_eq_3 request_def)

lemma pikachu_fields:
  "truthy pikachu_data"
  "py_item pikachu_data (ascii ''name'') = Inr (JStr (ascii ''pikachu''))"
  "type_names pikachu_data = Inr [JStr (ascii ''electric'')]"
  "artwork pikachu_data = Inr (JStr (ascii ''https://img/25.png''))"
  "species_url_of pikachu_data = Inr (JStr (ascii ''https://pokeapi.co/api/v2/pokemon-species/25/''))"
  "py_item pikachu_data (ascii ''id'') = Inr (JInt 25)"
  by (simp_all add: pikachu_data_def type_names_def artwork_def species_url_of_def ascii_def)

text \<open>
  Claim C7: when the primary record is fetched and the fields of the entity can be read
  from it, and the fetch of the species record returns nothing (\<^verbatim>\<open>None\<close>, or any falsy
  body), the assembled record has the slug as its display name, a null evolution chain and
  an empty list of forms; no further request is sent.
\<close>

theorem C7_no_species_record:
  assumes "fetch_json net (JStr (POKEAPI_BASE @ ascii ''/pokemon/'' @ py_str bi pokemon_id)) 3 w
             = (data, w1)"
    and "truthy data"
    and "py_item data (ascii ''name'') = Inr name_en"
    and "type_names data = Inr types"
    and "artwork data = Inr img"
    and "species_url_of data = Inr species_url"
    and "fetch_json net species_url 3 w1 = (species_data, w2)"
    and "\<not> truthy species_data"
    and "py_item data (ascii ''id'') = Inr idv"
  shows "fetch_pokemon net bi pokemon_id item_map w =
           (Inr (JObj [(key_id, idv), (key_name_en, name_en), (key_name_ja, name_en),
                       (key_types, JList types), (key_img, img), (key_chain, JNull),
                       (key_forms, JList [])]), w2)"
  using assms by (simp add: fetch_pokemon_def io_bind_fetch)

theorem C7_no_species_record_witness:
  "fetch_pokemon net_primary_only ascii_builtins (JInt 25) (JObj []) start =
     (Inr pikachu_no_species,
      \<lparr>sent = 2,
       trace = [Get (JStr (ascii ''https://pokeapi.co/api/v2/pokemon/25'')),
                Get (JStr (ascii ''https://pokeapi.co/api/v2/pokemon-species/25/''))]\<rparr>)"
proof -
  have "\<not> truthy JNull" by simp
  from C7_no_species_record [where bi = ascii_builtins and pokemon_id = "JInt 25" and item_map = "JObj []",
           OF fetch_primary pikachu_fields(1-5) fetch_later this pikachu_fields(6)]
  show ?thesis
    by (simp add: pikachu_no_species_def request_def start_def POKEAPI_BASE_def str_int_25 ascii_def)
qed

section \<open>The move assembler\<close>

lemma moves_empty:
  assumes "fetch_json net (JStr (POKEAPI_BASE @ ascii ''/pokemon/'' @ py_str bi pokemon_name)) 3 w
             = (data, w1)"
    and "\<not> truthy data"
  shows "fetch_pokemon_moves net bi pokemon_name version_map w = (Inr [], w1)"
  using assms by (simp add: fetch_pokemon_moves_def io_bind_fetch)


text \<open>
  Claim C3 says that a move whose detail fetch fails is still recorded, under its slug. The
  primary record of \<open>pikachu_data\<close> declares one move; when the fetch of its detail record
  is answered with 404, \<^verbatim>\<open>move_data\<close> is \<^verbatim>\<open>None\<close> and \<^verbatim>\<open>move_data.get("names", [])\<close>
  raises AttributeError: no row is recorded. (The other half of the claim holds: a failed
  primary fetch returns the empty list, \<open>moves_empty\<close>.)
\<close>

theorem C3_failed_move_fetch_raises:
  "fetch_pokemon_moves net_primary_only ascii_builtins (JStr (ascii ''pikachu'')) (JObj []) start =
     (Inl AttributeError,
      \<lparr>sent = 2,
       trace = [Get (JStr (ascii ''https://pokeapi.co/api/v2/pokemon/pikachu'')),
                Get (JStr (ascii ''https://pokeapi.co/api/v2/move/84/''))]\<rparr>)"
proof -
  let ?u1 = "JStr (POKEAPI_BASE @ ascii ''/pokemon/'' @ ascii ''pikachu'')"
  let ?u2 = "JStr (ascii ''https://pokeapi.co/api/v2/move/84/'')"
  have ms: "children pikachu_data (ascii ''moves'') =
      Inr [JObj [(ascii ''move'',
                          JObj [(ascii ''name'', JStr (ascii ''thunder-shock'')),
                                (ascii ''url'', ?u2)]),
                         (ascii ''version_group_details'',
                          JList [JObj [(ascii ''version_group'', JObj [(ascii ''name'', JStr (ascii ''red-blue''))]),
                                       (ascii ''level_learned_at'', JInt 1),
                                       (ascii ''move_learn_method'', JObj [(ascii ''name'', JStr (ascii ''level-up''))])]])]]"
    by (simp add: children_def get_key_def pikachu_data_def)
  have none: "first_ja JNull (ascii ''names'') v = Inl AttributeError" for v
    by (simp add: first_ja_def children_def get_key_def)
  have "fetch_pokemon_moves net_primary_only ascii_builtins (JStr (ascii ''pikachu'')) (JObj []) start =
      (Inl AttributeError, request ?u2 (request ?u1 start))"
    by (simp add: fetch_pokemon_moves_def io_bind_fetch [OF fetch_primary]
        io_bind_fetch [OF fetch_later] pikachu_fields ms none)
  then show ?thesis
    by (simp add: request_def start_def POKEAPI_BASE_def ascii_def)
qed

section \<open>The condition of a form\<close>

lemma search_obj:
  "search bi item_map target_name (JObj kvs) =
     ebind (children (JObj kvs) (ascii ''evolves_to'')) (\<lambda>evos.
     ebind (for_return
              (\<lambda>evo.
                 ebind (get_key evo (ascii ''species'') (JObj [])) (\<lambda>species.
                 ebind (get_key species (ascii ''name'') JNull) (\<lambda>species_name.
                 ebind (if py_eq species_name target_name
                        then ebind (children evo (ascii ''evolution_details''))
                               (for_return (\<lambda>detail.
                                  ebind (detail_condition bi item_map detail) (\<lambda>t. Inr (Some t))))
                        else Inr None) (\<lambda>returned.
                   case returned of
                     Some t \<Rightarrow> Inr (Some t)
                   | None \<Rightarrow>
                       ebind (search bi item_map target_name evo) (\<lambda>result.
                         Inr (if result \<noteq> [] then Some result else None))))))
              evos) (\<lambda>returned.
       Inr (case returned of Some t \<Rightarrow> t | None \<Rightarrow> txt_condition_unknown)))"
  by (rule search.simps)

lemma mentions_obj:
  "mentions target_name (JObj kvs) =
     (case children (JObj kvs) (ascii ''evolves_to'') of
        Inr evos \<Rightarrow> list_ex (\<lambda>evo. named target_name evo \<or> mentions target_name evo) evos
      | Inl e \<Rightarrow> False)"
  by (rule mentions.simps)

lemmas chain_eval = search_obj children_def get_key_def stone_node_def detail_condition_def
  name_if_def txt_condition_unknown_def txt_use_ja_def

lemma for_return_Some:
  "for_return f xs = Inr (Some y) \<Longrightarrow> \<exists>x \<in> set xs. f x = Inr (Some y)"
proof (induction xs)
  case Nil
  then show ?case by simp
next
  case (Cons x xs)
  then show ?case
    by (cases "f x") (auto split: option.splits)
qed

lemma search_no_match:
  "\<not> mentions target_name chain \<Longrightarrow> search bi item_map target_name chain = Inr r \<Longrightarrow>
   r = txt_condition_unknown"
proof (induction bi item_map target_name chain arbitrary: r rule: search.induct)
  case (1 bi item_map target_name chain)
  let ?body = "\<lambda>evo.
                 ebind (get_key evo (ascii ''species'') (JObj [])) (\<lambda>species.
                 ebind (get_key species (ascii ''name'') JNull) (\<lambda>species_name.
                 ebind (if py_eq species_name target_name
                        then ebind (children evo (ascii ''evolution_details''))
                               (for_return (\<lambda>detail.
                                  ebind (detail_condition bi item_map detail) (\<lambda>t. Inr (Some t))))
                        else Inr None) (\<lambda>returned.
                   case returned of
                     Some t \<Rightarrow> Inr (Some t)
                   | None \<Rightarrow>
                       ebind (search bi item_map target_name evo) (\<lambda>result.
                         Inr (if result \<noteq> [] then Some result else None)))))"
  from "1.prems"(2) obtain evos returned where
    ev: "children chain (ascii ''evolves_to'') = Inr evos" and
    loop: "for_return ?body evos = Inr returned" and
    r: "r = (case returned of Some t \<Rightarrow> t | None \<Rightarrow> txt_condition_unknown)"
    by (subst (asm) search.simps) (auto simp: ebind_eq_Inr)
  show ?case
  proof (cases returned)
    case None
    with r show ?thesis by simp
  next
    case (Some t)
    with loop obtain evo where evo: "evo \<in> set evos" and b: "?body evo = Inr (Some t)"
      by (auto dest: for_return_Some)
    from "1.prems"(1) ev evo have nn: "\<not> named target_name evo" and nm: "\<not> mentions target_name evo"
      by (subst (asm) mentions.simps; simp add: list_ex_iff)+
    from b obtain species species_name where
      sp: "get_key evo (ascii ''species'') (JObj []) = Inr species" and
      sn: "get_key species (ascii ''name'') JNull = Inr species_name" and
      rest: "ebind (if py_eq species_name target_name
                        then ebind (children evo (ascii ''evolution_details''))
                               (for_return (\<lambda>detail.
                                  ebind (detail_condition bi item_map detail) (\<lambda>t. Inr (Some t))))
                        else Inr None) (\<lambda>returned.
                   case returned of
                     Some t \<Rightarrow> Inr (Some t)
                   | None \<Rightarrow>
                       ebind (search bi item_map target_name evo) (\<lambda>result.
                         Inr (if result \<noteq> [] then Some result else None))) = Inr (Some t)"
      by (auto simp: ebind_eq_Inr)
    from nn sp sn have ne: "\<not> py_eq species_name target_name"
      by (simp add: named_def)
    with rest obtain result where
      s: "search bi item_map target_name evo = Inr result" and t: "result = t"
      by (auto simp: ebind_eq_Inr split: if_splits)
    have "result = txt_condition_unknown"
      by (rule "1.IH" [OF ev evo sp sn _ _ nm s]) (simp_all add: ne)
    with t r Some show ?thesis by simp
  qed
qed

lemma search_vaporeon:
  "extract_evolution_condition_from_chain ascii_builtins eevee_chain (JStr (ascii ''vaporeon'')) (JObj [])
     = Inr (ascii ''water-stone'' @ txt_use_ja)"
  by (simp add: extract_evolution_condition_from_chain_def eevee_chain_def chain_eval)

text \<open>jolteon is the second child: the search of the first child returns the sentinel string.\<close>

lemma search_jolteon:
  "extract_evolution_condition_from_chain ascii_builtins eevee_chain (JStr (ascii ''jolteon'')) (JObj [])
     = Inr txt_condition_unknown"
  by (simp add: extract_evolution_condition_from_chain_def eevee_chain_def chain_eval)

lemma not_mentions_pikachu: "\<not> chain_mentions (JStr (ascii ''pikachu'')) eevee_chain"
  by (simp add: chain_mentions_def eevee_chain_def mentions_obj named_def children_def get_key_def
      stone_node_def)

lemma form_condition:
  assumes "extract_form_info net bi form_detail item_map evolution_chain w = (Inr info, w')"
    and "py_item form_detail (ascii ''name'') = Inr form_name_en"
  shows "py_item info (ascii ''evolution_condition'') =
           (if truthy evolution_chain
            then ebind (extract_evolution_condition_from_chain bi evolution_chain form_name_en item_map)
                   (\<lambda>c. Inr (JStr c))
            else Inr (JStr []))"
proof (cases "truthy evolution_chain")
  case True
  with assms show ?thesis
    by (clarsimp simp: extract_form_info_def io_bind_eq_Inr)
next
  case False
  with assms show ?thesis
    by (clarsimp simp: extract_form_info_def io_bind_eq_Inr)
qed

lemma fetch_404: "fetch_json net_404 url 3 w = (JNull, request url w)"
  by (simp add: net_404_def numeral_3_eq_3)

lemma form_fields:
  "py_item (form_of slug) (ascii ''name'') = Inr (JStr (ascii slug))"
  "artwork (form_of slug) = Inr (JStr (ascii ''https://img/0.png''))"
  by (simp_all add: form_of_def artwork_def)

lemma form_info_eval:
  "extract_form_info net_404 ascii_builtins (form_of slug) (JObj []) evolution_chain start =
     (ebind (if truthy evolution_chain
             then ebind (extract_evolution_condition_from_chain ascii_builtins evolution_chain
                           (JStr (ascii slug)) (JObj [])) (\<lambda>c. Inr (JStr c))
             else Inr (JStr [])) (\<lambda>evolution_condition.
        Inr (JObj [(ascii ''name_en'', JStr (ascii slug)), (ascii ''name_ja'', JStr (ascii slug)),
                   (ascii ''img'', JStr (ascii ''https://img/0.png'')),
                   (ascii ''form_label'', JStr []), (ascii ''is_mega'', JBool False),
                   (ascii ''evolution_condition'', evolution_condition)])),
      request (JStr (ascii ''https://pokeapi.co/api/v2/pokemon-species/0/'')) start)"
proof -
  have u: "ebind (get_key (form_of slug) (ascii ''species'') (JObj [])) (\<lambda>sp.
             get_key sp (ascii ''url'') JNull)
           = Inr (JStr (ascii ''https://pokeapi.co/api/v2/pokemon-species/0/''))"
    by (simp add: form_of_def get_key_def)
  have m: "get_key (form_of slug) (ascii ''is_mega'') (JBool False) = Inr (JBool False)"
    by (simp add: form_of_def get_key_def)
  have t: "truthy (JStr (ascii ''https://pokeapi.co/api/v2/pokemon-species/0/''))"
    by (simp add: ascii_def)
  show ?thesis
    unfolding extract_form_info_def
    by (cases "if truthy evolution_chain
             then ebind (extract_evolution_condition_from_chain ascii_builtins evolution_chain
                           (JStr (ascii slug)) (JObj [])) (\<lambda>c. Inr (JStr c))
             else Inr (JStr [])")
       (simp_all add: u m t form_fields io_bind_fetch [OF fetch_404])
qed

text \<open>
  Claim C8 says that the condition of a form is the sentinel when the entity has no evolution
  chain. \<^verbatim>\<open>extract_form_info\<close> starts from the empty string and calls the search only
  under \<^verbatim>\<open>if evolution_chain\<close>: without a chain the condition stays empty.
\<close>

theorem C8_no_chain_counterexample:
  "extract_form_info net_404 ascii_builtins (form_of ''pikachu'') (JObj []) JNull start =
     (Inr (JObj [(ascii ''name_en'', JStr (ascii ''pikachu'')), (ascii ''name_ja'', JStr (ascii ''pikachu'')),
                 (ascii ''img'', JStr (ascii ''https://img/0.png'')),
                 (ascii ''form_label'', JStr []), (ascii ''is_mega'', JBool False),
                 (ascii ''evolution_condition'', JStr [])]),
      \<lparr>sent = 1, trace = [Get (JStr (ascii ''https://pokeapi.co/api/v2/pokemon-species/0/''))]\<rparr>) \<and>
   JStr [] \<noteq> JStr txt_condition_unknown"
proof -
  have "\<not> truthy JNull" by simp
  then have "extract_form_info net_404 ascii_builtins (form_of ''pikachu'') (JObj []) JNull start =
     (Inr (JObj [(ascii ''name_en'', JStr (ascii ''pikachu'')), (ascii ''name_ja'', JStr (ascii ''pikachu'')),
                 (ascii ''img'', JStr (ascii ''https://img/0.png'')),
                 (ascii ''form_label'', JStr []), (ascii ''is_mega'', JBool False),
                 (ascii ''evolution_condition'', JStr [])]),
      request (JStr (ascii ''https://pokeapi.co/api/v2/pokemon-species/0/'')) start)"
    by (simp add: form_info_eval)
  then show ?thesis
    by (simp add: request_def start_def txt_condition_unknown_def)
qed

text \<open>
  Claim C8, amended: the condition of a form is the empty string when the entity has no
  evolution chain, and otherwise what \<^verbatim>\<open>extract_evolution_condition_from_chain\<close> returns for
  the slug of the variety; that result is the sentinel whenever no node below the root of the
  chain carries the slug.
\<close>

theorem C8_form_condition:
  "(py_item form_detail (ascii ''name'') = Inr form_name_en \<and>
    extract_form_info net bi form_detail item_map evolution_chain w = (Inr info, w') \<longrightarrow>
      py_item info (ascii ''evolution_condition'') =
        (if truthy evolution_chain
         then ebind (extract_evolution_condition_from_chain bi evolution_chain form_name_en item_map)
                (\<lambda>c. Inr (JStr c))
         else Inr (JStr []))) \<and>
   (extract_evolution_condition_from_chain bi chain_data target_name item_map = Inr r \<and>
    \<not> chain_mentions target_name chain_data \<longrightarrow> r = txt_condition_unknown)"
proof (intro conjI impI)
  assume "py_item form_detail (ascii ''name'') = Inr form_name_en \<and>
    extract_form_info net bi form_detail item_map evolution_chain w = (Inr info, w')"
  then have a: "py_item form_detail (ascii ''name'') = Inr form_name_en"
    and b: "extract_form_info net bi form_detail item_map evolution_chain w = (Inr info, w')"
    by simp_all
  from b a show "py_item info (ascii ''evolution_condition'') =
        (if truthy evolution_chain
         then ebind (extract_evolution_condition_from_chain bi evolution_chain form_name_en item_map)
                (\<lambda>c. Inr (JStr c))
         else Inr (JStr []))"
    by (rule form_condition)
next
  assume "extract_evolution_condition_from_chain bi chain_data target_name item_map = Inr r \<and>
    \<not> chain_mentions target_name chain_data"
  then show "r = txt_condition_unknown"
    by (auto simp: extract_evolution_condition_from_chain_def chain_mentions_def ebind_eq_Inr
        dest: search_no_match)
qed

theorem C8_form_condition_witness:
  "py_item (form_of ''pikachu'') (ascii ''name'') = Inr (JStr (ascii ''pikachu'')) \<and>
   extract_form_info net_404 ascii_builtins (form_of ''pikachu'') (JObj []) eevee_chain start =
     (Inr (JObj [(ascii ''name_en'', JStr (ascii ''pikachu'')), (ascii ''name_ja'', JStr (ascii ''pikachu'')),
                 (ascii ''img'', JStr (ascii ''https://img/0.png'')),
                 (ascii ''form_label'', JStr []), (ascii ''is_mega'', JBool False),
                 (ascii ''evolution_condition'', JStr txt_condition_unknown)]),
      request (JStr (ascii ''https://pokeapi.co/api/v2/pokemon-species/0/'')) start) \<and>
   \<not> chain_mentions (JStr (ascii ''pikachu'')) eevee_chain \<and>
   extract_evolution_condition_from_chain ascii_builtins eevee_chain (JStr (ascii ''pikachu'')) (JObj [])
     = Inr txt_condition_unknown"
proof -
  obtain r where r: "extract_evolution_condition_from_chain ascii_builtins eevee_chain
      (JStr (ascii ''pikachu'')) (JObj []) = Inr r"
    by (simp add: extract_evolution_condition_from_chain_def eevee_chain_def chain_eval)
  from C8_form_condition [of "form_of ''pikachu''" "JStr (ascii ''pikachu'')" net_404 ascii_builtins "JObj []"
             eevee_chain start _ _ eevee_chain "JStr (ascii ''pikachu'')" r]
    r not_mentions_pikachu
  have "r = txt_condition_unknown" by blast
  with r have e: "extract_evolution_condition_from_chain ascii_builtins eevee_chain
      (JStr (ascii ''pikachu'')) (JObj []) = Inr txt_condition_unknown" by simp
  have "truthy eevee_chain" by (simp add: eevee_chain_def)
  then show ?thesis
    using e not_mentions_pikachu by (simp add: form_info_eval form_fields)
qed

section \<open>The priority of the cache-build-time extractor\<close>

















section \<open>The order of the cache\<close>

lemma gather_Inr:
  "\<forall>i \<in> set order. task i = Inr (res i) \<Longrightarrow>
   gather (map task order) acc = Inr (acc @ map res (filter (\<lambda>i. truthy (res i)) order))"
  by (induction order arbitrary: acc) simp_all

lemma map_e_Inr: "\<forall>x \<in> set xs. f x = Inr (g x) \<Longrightarrow> map_e f xs = Inr (map g xs)"
  by (induction xs) simp_all

lemma insort_key_fst_map:
  "insort_key fst (f x, x) (map (\<lambda>y. (f y, y)) ys) = map (\<lambda>y. (f y, y)) (insort_key f x ys)"
  by (induction ys) simp_all

lemma sort_key_fst_map:
  "sort_key fst (map (\<lambda>y. (f y, y)) xs) = map (\<lambda>y. (f y, y)) (sort_key f xs)"
  by (induction xs) (simp_all add: insort_key_fst_map)

lemma py_sorted_by_ints:
  assumes "\<forall>x \<in> set xs. key x = Inr (JInt (f x))"
  shows "py_sorted_by bi key xs = Inr (sort_key f xs)"
proof -
  have ks: "map_e key xs = Inr (map (\<lambda>x. JInt (f x)) xs)"
    using assms by (rule map_e_Inr)
  have z: "zip (map f xs) xs = map (\<lambda>y. (f y, y)) xs"
    by (induction xs) simp_all
  have "map snd (sort_key fst (zip (map f xs) xs)) = sort_key f xs"
    by (simp add: z sort_key_fst_map comp_def)
  moreover have "length xs \<le> 1 \<Longrightarrow> sort_key f xs = xs"
    by (cases xs) simp_all
  ultimately show ?thesis
    by (simp add: py_sorted_by_def ks list_all_iff comp_def)
qed

lemma distinct_map_sort_key:
  "distinct (map f (sort_key f xs)) \<longleftrightarrow> distinct (map f xs)"
  by (simp add: distinct_map)

lemma filter_upt_two:
  assumes "a < b" and "l \<le> a" and "b < u" and "\<And>i. P i \<longleftrightarrow> i = a \<or> i = b"
  shows "filter P [l..<u] = [a, b]"
proof (rule sorted_distinct_set_unique)
  show "sorted (filter P [l..<u])" by (simp add: sorted_wrt_filter)
  show "distinct (filter P [l..<u])" by simp
  show "sorted [a, b]" using assms(1) by simp
  show "distinct [a, b]" using assms(1) by simp
  show "set (filter P [l..<u]) = set [a, b]" using assms by auto
qed

lemma two_tasks_gathered:
  "gather (map two_tasks (rev task_ids)) [] =
     Inr [entity 26 (ascii ''raichu'') name_raichu_ja, entity 25 (ascii ''pikachu'') name_pikachu_ja]"
proof -
  define res where "res = (\<lambda>i::nat. if i = 25 then entity 25 (ascii ''pikachu'') name_pikachu_ja
      else if i = 26 then entity 26 (ascii ''raichu'') name_raichu_ja else JNull)"
  have t: "truthy (res i) \<longleftrightarrow> i = 25 \<or> i = 26" for i
    by (simp add: res_def entity_def)
  have "filter (\<lambda>i. truthy (res i)) [1..<1026] = [25, 26]"
    by (rule filter_upt_two) (simp_all add: t)
  then have "filter (\<lambda>i. truthy (res i)) (rev task_ids) = [26, 25]"
    by (simp add: task_ids_def rev_filter [symmetric])
  moreover have "\<forall>i \<in> set (rev task_ids). two_tasks i = Inr (res i)"
    by (simp add: two_tasks_def res_def)
  ultimately show ?thesis
    using gather_Inr [of "rev task_ids" two_tasks res "[]"] by (simp add: res_def)
qed

text \<open>
  The written collection for records that carry integer IDs \<open>idn i\<close> of any kind: it is
  sorted, and its IDs are distinct when the IDs of the assembled records are.
\<close>

lemma sorted_by_id_general:
  assumes "distinct order" and "set order = set task_ids"
    and "\<forall>i \<in> set task_ids. task i = Inr (res i)"
    and "\<forall>i \<in> set task_ids. truthy (res i) \<longrightarrow> py_item (res i) key_id = Inr (JInt (idn i))"
  shows "\<exists>out ns. pokemon_list_sorted bi task order = Inr out \<and>
           map (\<lambda>x. py_item x key_id) out = map (\<lambda>n. Inr (JInt n)) ns \<and>
           sorted ns \<and>
           set out = {res i |i. i \<in> set task_ids \<and> truthy (res i)} \<and>
           (inj_on idn {i \<in> set task_ids. truthy (res i)} \<longrightarrow> distinct ns)"
proof -
  define ok where "ok = filter (\<lambda>i. truthy (res i)) order"
  define xs where "xs = map res ok"
  define f where "f = (\<lambda>x. case py_item x key_id of Inr (JInt n) \<Rightarrow> n | _ \<Rightarrow> 0)"
  have d: "set ok = {i \<in> set task_ids. truthy (res i)}" "distinct ok"
    using assms(1,2) by (auto simp: ok_def)
  have fi: "f (res i) = idn i" if "i \<in> set ok" for i
    using that assms(4) d(1) by (simp add: f_def)
  have key: "\<forall>x \<in> set xs. py_item x key_id = Inr (JInt (f x))"
    using assms(4) d(1) fi by (auto simp: xs_def)
  have g: "gather (map task order) [] = Inr xs"
    using gather_Inr [of order task res "[]"] assms(2,3) by (simp add: xs_def ok_def)
  have out: "pokemon_list_sorted bi task order = Inr (sort_key f xs)"
    by (simp add: pokemon_list_sorted_def g py_sorted_by_ints [OF key])
  have ids: "map (\<lambda>x. py_item x key_id) (sort_key f xs)
      = map (\<lambda>n. Inr (JInt n)) (map f (sort_key f xs))"
    using key by simp
  have s: "sorted (map f (sort_key f xs))"
    by (rule sorted_sort_key)
  have st: "set (sort_key f xs) = {res i |i. i \<in> set task_ids \<and> truthy (res i)}"
    using d(1) by (auto simp: xs_def)
  have dist: "distinct (map f (sort_key f xs))" if inj: "inj_on idn {i \<in> set task_ids. truthy (res i)}"
  proof -
    have "map f xs = map idn ok"
      using fi by (simp add: xs_def)
    moreover have "distinct (map idn ok)"
      using inj d by (simp add: distinct_map)
    ultimately show ?thesis
      by (simp add: distinct_map_sort_key)
  qed
  from out ids s st dist show ?thesis by blast
qed

text \<open>
  Claim C5: the upstream is keyed by numeric ID, so the record assembled for the ID \<open>i\<close>
  carries the ID \<open>i\<close>. Then, whichever fetches succeed (a task whose primary fetch fails
  returns \<^verbatim>\<open>None\<close>) and in whatever order the tasks complete, the collection is written, it
  holds exactly the assembled records, it is sorted in ascending order of ID, and every ID in
  it is unique.
\<close>

theorem C5_sorted_by_id:
  assumes "distinct order" and "set order = set task_ids"
    and "\<forall>i \<in> set task_ids. task i = Inr (res i)"
    and "\<forall>i \<in> set task_ids. truthy (res i) \<longrightarrow> py_item (res i) key_id = Inr (JInt (int i))"
  shows "\<exists>out ns. pokemon_list_sorted bi task order = Inr out \<and>
           map (\<lambda>x. py_item x key_id) out = map (\<lambda>n. Inr (JInt n)) ns \<and>
           sorted ns \<and> distinct ns \<and>
           set out = {res i |i. i \<in> set task_ids \<and> truthy (res i)}"
proof -
  have "inj_on int {i \<in> set task_ids. truthy (res i)}"
    by simp
  with sorted_by_id_general [OF assms, of bi] show ?thesis
    by blast
qed

theorem C5_sorted_by_id_witness:
  "pokemon_list_sorted ascii_builtins two_tasks (rev task_ids) =
     Inr [entity 25 (ascii ''pikachu'') name_pikachu_ja, entity 26 (ascii ''raichu'') name_raichu_ja] \<and>
   (\<exists>ns. map (\<lambda>x. py_item x key_id)
            [entity 25 (ascii ''pikachu'') name_pikachu_ja, entity 26 (ascii ''raichu'') name_raichu_ja]
          = map (\<lambda>n. Inr (JInt n)) ns \<and> sorted ns \<and> distinct ns)"
proof -
  define res where "res = (\<lambda>i::nat. if i = 25 then entity 25 (ascii ''pikachu'') name_pikachu_ja
      else if i = 26 then entity 26 (ascii ''raichu'') name_raichu_ja else JNull)"
  have 1: "distinct (rev task_ids)" and 2: "set (rev task_ids) = set task_ids"
    by (simp_all add: task_ids_def)
  have 3: "\<forall>i \<in> set task_ids. two_tasks i = Inr (res i)"
    by (simp add: two_tasks_def res_def)
  have 4: "\<forall>i \<in> set task_ids. truthy (res i) \<longrightarrow> py_item (res i) key_id = Inr (JInt (int i))"
    by (simp add: res_def entity_def key_defs)
  have e: "pokemon_list_sorted ascii_builtins two_tasks (rev task_ids) =
     Inr [entity 25 (ascii ''pikachu'') name_pikachu_ja, entity 26 (ascii ''raichu'') name_raichu_ja]"
    by (simp add: pokemon_list_sorted_def two_tasks_gathered py_sorted_by_def entity_def key_defs)
  from C5_sorted_by_id [OF 1 2 3 4, of ascii_builtins] obtain out ns where
    "pokemon_list_sorted ascii_builtins two_tasks (rev task_ids) = Inr out"
    "map (\<lambda>x. py_item x key_id) out = map (\<lambda>n. Inr (JInt n)) ns" "sorted ns" "distinct ns"
    by blast
  with e show ?thesis
    by auto
qed

end
